theory Spec2Isabelle
  imports
    Complex_Main
    "HOL-Library.AList"
    "HOL-Library.Char_ord"
    "HOL-Library.List_Lexorder"
    "HOL-Library.Product_Lexorder"
begin

section \<open>Data model (lib/firestore-service.ts)\<close>

text \<open>
  The counters and targets are JavaScript numbers that only ever hold integers (they start at
  integer literals and change by \<open>+1\<close>, \<open>-1\<close> or integer sums), so they are modelled as
  \<open>int\<close>; sums of such values are exact in the source as long as they stay below \<open>2^53\<close>.
  A string is a \<open>char list\<close> holding the UTF-8 bytes of the source text. A JavaScript object
  used as a dictionary (\<open>Record<string, ...>\<close>) is an association list in insertion order whose
  keys are pairwise distinct; the assignment \<open>obj[k] = v\<close> is \<open>AList.update k v obj\<close> and the
  lookup \<open>obj[k]\<close> is \<open>map_of obj k\<close>. Property names inherited from \<open>Object.prototype\<close> are
  not modelled: subject names are taken to differ from them.
\<close>

text \<open>
  The value type of \<open>DailyProgress.subjects\<close> and of the rollup tables,
  \<open>{ correct; wrong; empty; total }\<close>. The newer interface also declares a per-entry
  \<open>target\<close>; no code of the repository writes or reads it, and it is left out.
\<close>

record SubjectCounts =
  correct :: int
  wrong :: int
  empty :: int
  total :: int

record SubjectData =
  name :: string
  icon :: string
  correct :: int
  wrong :: int
  empty :: int
  target :: int
  color :: string

text \<open>
  \<open>Omit<DailyProgress, 'userId' | 'timestamp'>\<close> is the parent record; \<open>DailyProgress\<close>
  extends it. \<open>totalTarget\<close> is optional: the page never supplies it, and a stored document
  without the field reads back as \<open>undefined\<close>.
\<close>

record DailyProgressData =
  date :: string
  subjects :: "(string \<times> SubjectCounts) list"
  total :: int
  totalTarget :: "int option"

record DailyProgress = DailyProgressData +
  userId :: string
  timestamp :: int

record UserProgress =
  subjects :: "SubjectData list"
  totalTarget :: int
  lastUpdated :: int
  lastUpdateDate :: "string option"

record UserSettings =
  subjects :: "SubjectData list"
  totalTarget :: int
  lastUpdated :: int

section \<open>The document store\<close>

text \<open>
  Cloud Firestore is outside the repository. It is modelled as three collections keyed by
  document id, a script saying which of the coming requests fail (\<open>True\<close> is a failure; an
  exhausted script means success), and the log of the requests issued so far. A rejected
  promise is the error value \<open>FirestoreError\<close>.
\<close>

datatype error = FirestoreError | TypeError

datatype request =
    GetDoc string string
  | SetDoc string string
  | SetDocMerge string string
  | GetDocs string

record firestore =
  userProgress_docs :: "string \<rightharpoonup> UserProgress"
  userSettings_docs :: "string \<rightharpoonup> UserSettings"
  dailyHistory_docs :: "(string \<times> DailyProgress) list"
  failures :: "bool list"
  requests :: "request list"

text \<open>The clock readings a call takes: \<open>serverTimestamp()\<close> and
  \<open>new Date().toISOString().split("T")[0]\<close>.\<close>

record clock =
  serverTimestamp :: int
  isoDate :: string

text \<open>Issuing one request: it is logged, and the script decides whether it succeeds.\<close>

definition issue :: "request \<Rightarrow> firestore \<Rightarrow> bool \<times> firestore" where
  "issue r fs =
     (case failures fs of
        [] \<Rightarrow> (True, fs\<lparr>requests := requests fs @ [r]\<rparr>)
      | f # rest \<Rightarrow> (\<not> f, fs\<lparr>failures := rest, requests := requests fs @ [r]\<rparr>))"

text \<open>
  \<open>setDoc(ref, data, { merge: true })\<close> on a daily record: the fields present in the data
  overwrite the stored ones and every other stored field stays. Nested maps merge key by key;
  an empty map in the data is written as such and replaces the stored map. An entry of
  \<open>subjects\<close> always carries all four counters, so a written entry replaces the stored one.
\<close>

definition mergeSubjects ::
  "(string \<times> SubjectCounts) list \<Rightarrow> (string \<times> SubjectCounts) list \<Rightarrow> (string \<times> SubjectCounts) list" where
  "mergeSubjects old new =
     (if new = [] then [] else fold (\<lambda>(k, e) al. AList.update k e al) new old)"

definition mergeDaily :: "DailyProgress option \<Rightarrow> DailyProgress \<Rightarrow> DailyProgress" where
  "mergeDaily stored data =
     (case stored of
        None \<Rightarrow> data
      | Some old \<Rightarrow>
          \<lparr> date = date data,
            subjects = mergeSubjects (DailyProgressData.subjects old) (DailyProgressData.subjects data),
            total = total data,
            totalTarget =
              (case DailyProgressData.totalTarget data of
                 Some t \<Rightarrow> Some t
               | None \<Rightarrow> DailyProgressData.totalTarget old),
            userId = userId data,
            timestamp = timestamp data \<rparr>)"

section \<open>FirestoreService (lib/firestore-service.ts)\<close>

definition saveUserProgress ::
  "clock \<Rightarrow> firestore \<Rightarrow> string \<Rightarrow> SubjectData list \<Rightarrow> int \<Rightarrow> (error + unit) \<times> firestore" where
  "saveUserProgress clk fs uid subjs tt =
     (case issue (SetDoc ''userProgress'' uid) fs of
        (True, fs') \<Rightarrow>
          (Inr (),
           fs'\<lparr>userProgress_docs := (userProgress_docs fs')(uid \<mapsto>
                 \<lparr> UserProgress.subjects = subjs,
                   UserProgress.totalTarget = tt,
                   UserProgress.lastUpdated = serverTimestamp clk,
                   lastUpdateDate = Some (isoDate clk) \<rparr>)\<rparr>)
      | (False, fs') \<Rightarrow> (Inl FirestoreError, fs'))"

definition getUserProgress ::
  "firestore \<Rightarrow> string \<Rightarrow> (error + UserProgress option) \<times> firestore" where
  "getUserProgress fs uid =
     (case issue (GetDoc ''userProgress'' uid) fs of
        (True, fs') \<Rightarrow> (Inr (userProgress_docs fs' uid), fs')
      | (False, fs') \<Rightarrow> (Inl FirestoreError, fs'))"

definition saveUserSettings ::
  "clock \<Rightarrow> firestore \<Rightarrow> string \<Rightarrow> SubjectData list \<Rightarrow> int \<Rightarrow> (error + unit) \<times> firestore" where
  "saveUserSettings clk fs uid subjs tt =
     (let settingsSubjects = map (\<lambda>subject. subject\<lparr>correct := 0, wrong := 0, empty := 0\<rparr>) subjs
      in case issue (SetDoc ''userSettings'' uid) fs of
           (True, fs') \<Rightarrow>
             (Inr (),
              fs'\<lparr>userSettings_docs := (userSettings_docs fs')(uid \<mapsto>
                    \<lparr> UserSettings.subjects = settingsSubjects,
                      UserSettings.totalTarget = tt,
                      UserSettings.lastUpdated = serverTimestamp clk \<rparr>)\<rparr>)
         | (False, fs') \<Rightarrow> (Inl FirestoreError, fs'))"

definition getUserSettings ::
  "firestore \<Rightarrow> string \<Rightarrow> (error + UserSettings option) \<times> firestore" where
  "getUserSettings fs uid =
     (case issue (GetDoc ''userSettings'' uid) fs of
        (True, fs') \<Rightarrow> (Inr (userSettings_docs fs' uid), fs')
      | (False, fs') \<Rightarrow> (Inl FirestoreError, fs'))"

text \<open>\<open>saveDailyProgressForDate\<close>: the document id is \<open>`${userId}_${dailyProgress.date}`\<close>;
  the \<open>catch\<close> logs and rethrows.\<close>

definition dailyDocId :: "string \<Rightarrow> string \<Rightarrow> string" where
  "dailyDocId uid d = uid @ ''_'' @ d"

definition saveDailyProgressForDate ::
  "clock \<Rightarrow> firestore \<Rightarrow> string \<Rightarrow> DailyProgressData \<Rightarrow> (error + unit) \<times> firestore" where
  "saveDailyProgressForDate clk fs uid dailyProgress =
     (let docId = dailyDocId uid (date dailyProgress);
          data = \<lparr> date = date dailyProgress,
                   subjects = DailyProgressData.subjects dailyProgress,
                   total = total dailyProgress,
                   totalTarget = DailyProgressData.totalTarget dailyProgress,
                   userId = uid,
                   timestamp = serverTimestamp clk \<rparr>
      in case issue (SetDocMerge ''dailyHistory'' docId) fs of
           (True, fs') \<Rightarrow>
             (Inr (),
              fs'\<lparr>dailyHistory_docs :=
                    AList.update docId (mergeDaily (map_of (dailyHistory_docs fs') docId) data)
                      (dailyHistory_docs fs')\<rparr>)
         | (False, fs') \<Rightarrow> (Inl FirestoreError, fs'))"

text \<open>\<open>getDailyProgressForDate\<close>: the \<open>catch\<close> logs and returns \<open>null\<close>.\<close>

definition getDailyProgressForDate ::
  "firestore \<Rightarrow> string \<Rightarrow> string \<Rightarrow> (error + DailyProgress option) \<times> firestore" where
  "getDailyProgressForDate fs uid dateString =
     (let docId = dailyDocId uid dateString
      in case issue (GetDoc ''dailyHistory'' docId) fs of
           (True, fs') \<Rightarrow> (Inr (map_of (dailyHistory_docs fs') docId), fs')
         | (False, fs') \<Rightarrow> (Inr None, fs'))"

text \<open>
  The query \<open>where('userId', '==', userId), orderBy('date', 'desc'), limit(limitCount)\<close>:
  Firestore orders strings by their bytes and breaks ties by document id in the direction of
  the last \<open>orderBy\<close>.
\<close>

definition queryDailyHistory :: "firestore \<Rightarrow> string \<Rightarrow> nat \<Rightarrow> DailyProgress list" where
  "queryDailyHistory fs uid limitCount =
     map snd (take limitCount (rev (sort_key (\<lambda>(docId, d). (date d, docId))
       (filter (\<lambda>(docId, d). userId d = uid) (dailyHistory_docs fs)))))"

text \<open>\<open>getUserDailyHistory\<close>: the \<open>catch\<close> logs and returns \<open>[]\<close>.\<close>

definition getUserDailyHistory ::
  "firestore \<Rightarrow> string \<Rightarrow> nat \<Rightarrow> (error + DailyProgress list) \<times> firestore" where
  "getUserDailyHistory fs uid limitCount =
     (case issue (GetDocs ''dailyHistory'') fs of
        (True, fs') \<Rightarrow> (Inr (queryDailyHistory fs' uid limitCount), fs')
      | (False, fs') \<Rightarrow> (Inr [], fs'))"

definition defaultSubjects :: "SubjectData list" where
  "defaultSubjects =
     [ \<lparr> name = ''T'' @ [CHR 0xC3, CHR 0xBC] @ ''rk'' @ [CHR 0xC3, CHR 0xA7] @ ''e'',
         icon = [CHR 0xF0, CHR 0x9F, CHR 0x87, CHR 0xB9, CHR 0xF0, CHR 0x9F, CHR 0x87, CHR 0xB7],
         correct = 0, wrong = 0, empty = 0, target = 10, color = ''bg-red-500'' \<rparr>,
       \<lparr> name = ''Matematik'',
         icon = [CHR 0xF0, CHR 0x9F, CHR 0x94, CHR 0xA2],
         correct = 0, wrong = 0, empty = 0, target = 15, color = ''bg-blue-500'' \<rparr>,
       \<lparr> name = ''Sosyal Bilgiler'',
         icon = [CHR 0xF0, CHR 0x9F, CHR 0x8C, CHR 0x8D],
         correct = 0, wrong = 0, empty = 0, target = 8, color = ''bg-green-500'' \<rparr>,
       \<lparr> name = ''Fen Bilimleri'',
         icon = [CHR 0xF0, CHR 0x9F, CHR 0x94, CHR 0xAC],
         correct = 0, wrong = 0, empty = 0, target = 12, color = ''bg-purple-500'' \<rparr>,
       \<lparr> name = [CHR 0xC4, CHR 0xB0] @ ''ngilizce'',
         icon = [CHR 0xF0, CHR 0x9F, CHR 0x87, CHR 0xAC, CHR 0xF0, CHR 0x9F, CHR 0x87, CHR 0xA7],
         correct = 0, wrong = 0, empty = 0, target = 10, color = ''bg-yellow-500'' \<rparr>,
       \<lparr> name = ''Din K'' @ [CHR 0xC3, CHR 0xBC] @ ''lt'' @ [CHR 0xC3, CHR 0xBC] @ ''r'' @ [CHR 0xC3, CHR 0xBC],
         icon = [CHR 0xF0, CHR 0x9F, CHR 0x93, CHR 0xBF],
         correct = 0, wrong = 0, empty = 0, target = 5, color = ''bg-orange-500'' \<rparr> ]"

text \<open>\<open>reduce((sum, subject) => sum + subject.target, 0)\<close>\<close>

definition sumTargets :: "SubjectData list \<Rightarrow> int" where
  "sumTargets subjs = foldl (\<lambda>sum subject. sum + target subject) 0 subjs"

text \<open>\<open>initializeUserSettings\<close> and \<open>initializeUserProgress\<close>: an existing document ends the
  call; every rejection inside the \<open>try\<close> is logged and rethrown.\<close>

definition initializeUserSettings :: "clock \<Rightarrow> firestore \<Rightarrow> string \<Rightarrow> (error + unit) \<times> firestore" where
  "initializeUserSettings clk fs uid =
     (case getUserSettings fs uid of
        (Inl e, fs') \<Rightarrow> (Inl e, fs')
      | (Inr (Some existingSettings), fs') \<Rightarrow> (Inr (), fs')
      | (Inr None, fs') \<Rightarrow> saveUserSettings clk fs' uid defaultSubjects (sumTargets defaultSubjects))"

definition initializeUserProgress :: "clock \<Rightarrow> firestore \<Rightarrow> string \<Rightarrow> (error + unit) \<times> firestore" where
  "initializeUserProgress clk fs uid =
     (case getUserProgress fs uid of
        (Inl e, fs') \<Rightarrow> (Inl e, fs')
      | (Inr (Some existingProgress), fs') \<Rightarrow> (Inr (), fs')
      | (Inr None, fs') \<Rightarrow> saveUserProgress clk fs' uid defaultSubjects (sumTargets defaultSubjects))"

section \<open>The page component (app/page.tsx)\<close>

text \<open>
  The React state of \<open>StudyTracker\<close> that the logic reads and writes. \<open>currentUser\<close> is the
  signed-in user's uid, if any. The theme flag and the target editor's index only drive
  rendering and are left out.
\<close>

record StudyTracker =
  currentUser :: "string option"
  subjectProgress :: "SubjectData list"
  dailyHistory :: "DailyProgress list"
  totalQuestions :: int
  totalTarget :: int
  dataLoading :: bool
  saveLoading :: bool
  selectedDate :: string

text \<open>The state of a freshly mounted component (the \<open>useState\<close> initial values); nobody
  is signed in yet.\<close>

definition initialTracker :: "clock \<Rightarrow> StudyTracker" where
  "initialTracker clk =
     \<lparr> currentUser = None, subjectProgress = [], dailyHistory = [], totalQuestions = 0,
       totalTarget = 60, dataLoading = True, saveLoading = False, selectedDate = isoDate clk \<rparr>"

text \<open>\<open>reduce((sum, subject) => sum + subject.correct + subject.wrong + subject.empty, 0)\<close>\<close>

definition sumQuestions :: "SubjectData list \<Rightarrow> int" where
  "sumQuestions subjs =
     foldl (\<lambda>sum subject. sum + correct subject + wrong subject + empty subject) 0 subjs"

text \<open>The two branches of \<open>loadUserDataForDate\<close> that build \<open>finalSubjects\<close>.\<close>

definition finalSubjects :: "UserProgress \<Rightarrow> DailyProgress option \<Rightarrow> SubjectData list" where
  "finalSubjects userProgress dateProgress =
     (case dateProgress of
        Some dp \<Rightarrow>
          map (\<lambda>subject.
                 case map_of (DailyProgressData.subjects dp) (name subject) of
                   Some dateData \<Rightarrow>
                     subject\<lparr>correct := SubjectCounts.correct dateData,
                             wrong := SubjectCounts.wrong dateData,
                             empty := SubjectCounts.empty dateData\<rparr>
                 | None \<Rightarrow> subject\<lparr>correct := 0, wrong := 0, empty := 0\<rparr>)
              (UserProgress.subjects userProgress)
      | None \<Rightarrow>
          map (\<lambda>subject. subject\<lparr>correct := 0, wrong := 0, empty := 0\<rparr>)
              (UserProgress.subjects userProgress))"

text \<open>
  \<open>loadUserDataForDate\<close>. Each \<open>await\<close> is a call of the service on the store; a rejection
  inside the outer \<open>try\<close> leaves the state as it is at that point, and \<open>finally\<close> clears
  \<open>dataLoading\<close>. The inner \<open>try\<close> turns a failed initialisation into \<open>userProgress = null\<close>.
  The theme preference read from \<open>localStorage\<close> is left out.
\<close>

definition fetchUserProgress ::
  "clock \<Rightarrow> firestore \<Rightarrow> string \<Rightarrow> (error + UserProgress option) \<times> firestore" where
  "fetchUserProgress clk fs uid =
     (case getUserProgress fs uid of
        (Inl e, fs1) \<Rightarrow> (Inl e, fs1)
      | (Inr (Some userProgress), fs1) \<Rightarrow> (Inr (Some userProgress), fs1)
      | (Inr None, fs1) \<Rightarrow>
          (case initializeUserProgress clk fs1 uid of
             (Inl initError, fs2) \<Rightarrow> (Inr None, fs2)
           | (Inr u, fs2) \<Rightarrow>
               (case getUserProgress fs2 uid of
                  (Inl initError, fs3) \<Rightarrow> (Inr None, fs3)
                | (Inr userProgress, fs3) \<Rightarrow> (Inr userProgress, fs3))))"

definition loadUserDataForDate ::
  "clock \<Rightarrow> firestore \<Rightarrow> StudyTracker \<Rightarrow> string \<Rightarrow> StudyTracker \<times> firestore" where
  "loadUserDataForDate clk fs st dateString =
     (case currentUser st of
        None \<Rightarrow> (st, fs)
      | Some uid \<Rightarrow>
          (let st0 = st\<lparr>dataLoading := True\<rparr>
           in case fetchUserProgress clk fs uid of
                (Inl e, fs1) \<Rightarrow> (st0\<lparr>dataLoading := False\<rparr>, fs1)
              | (Inr up, fs1) \<Rightarrow>
                  (let (caught, st1, fs2) =
                         (case up of
                            None \<Rightarrow> (False, st0, fs1)
                          | Some userProgress \<Rightarrow>
                              (case getDailyProgressForDate fs1 uid dateString of
                                 (Inl e, fs') \<Rightarrow> (True, st0, fs')
                               | (Inr dateProgress, fs') \<Rightarrow>
                                   (let subjs = finalSubjects userProgress dateProgress
                                    in (False,
                                        st0\<lparr>subjectProgress := subjs,
                                            totalTarget := UserProgress.totalTarget userProgress,
                                            totalQuestions := sumQuestions subjs\<rparr>,
                                        fs'))))
                   in if caught then (st1\<lparr>dataLoading := False\<rparr>, fs2)
                      else
                        (case getUserDailyHistory fs2 uid 7 of
                           (Inl e, fs3) \<Rightarrow> (st1\<lparr>dataLoading := False\<rparr>, fs3)
                         | (Inr history, fs3) \<Rightarrow>
                             (st1\<lparr>dailyHistory := history, dataLoading := False\<rparr>, fs3)))))"

text \<open>
  The body of \<open>saveProgress\<close>, which the effect runs when its one-second timer fires. The
  timer and the effect's dependency list (which names \<open>loading\<close>, a variable the component
  does not declare) belong to the React runtime and are not part of the model.
\<close>

definition saveProgress :: "clock \<Rightarrow> firestore \<Rightarrow> StudyTracker \<Rightarrow> StudyTracker \<times> firestore" where
  "saveProgress clk fs st =
     (case currentUser st of
        None \<Rightarrow> (st, fs)
      | Some uid \<Rightarrow>
          if dataLoading st \<or> length (subjectProgress st) = 0 then (st, fs)
          else
            (case saveUserProgress clk fs uid (subjectProgress st) (totalTarget st) of
               (r, fs') \<Rightarrow> (st\<lparr>saveLoading := False\<rparr>, fs')))"

text \<open>The field selector \<open>type: "correct" | "wrong" | "empty"\<close>.\<close>

datatype counter = Correct | Wrong | Empty

fun getCounter :: "counter \<Rightarrow> SubjectData \<Rightarrow> int" where
  "getCounter Correct subject = correct subject"
| "getCounter Wrong subject = wrong subject"
| "getCounter Empty subject = empty subject"

fun setCounter :: "counter \<Rightarrow> int \<Rightarrow> SubjectData \<Rightarrow> SubjectData" where
  "setCounter Correct v subject = subject\<lparr>correct := v\<rparr>"
| "setCounter Wrong v subject = subject\<lparr>wrong := v\<rparr>"
| "setCounter Empty v subject = subject\<lparr>empty := v\<rparr>"

text \<open>The object \<open>progressForDate\<close> that \<open>updateQuestions\<close> builds from the new snapshot.\<close>

definition progressForDate :: "string \<Rightarrow> SubjectData list \<Rightarrow> int \<Rightarrow> DailyProgressData" where
  "progressForDate d newProgress newTotal =
     \<lparr> date = d,
       subjects =
         foldl (\<lambda>obj subject.
                  AList.update (name subject)
                    \<lparr> SubjectCounts.correct = correct subject,
                      SubjectCounts.wrong = wrong subject,
                      SubjectCounts.empty = empty subject,
                      SubjectCounts.total = correct subject + wrong subject + empty subject \<rparr>
                    obj)
               [] newProgress,
       total = newTotal,
       totalTarget = None \<rparr>"

text \<open>
  \<open>updateQuestions\<close>. An index outside the array makes \<open>newProgress[subjectIndex]\<close> undefined
  and the assignment throws a \<open>TypeError\<close> before any state is set. A rejection of the save is
  caught and logged.
\<close>

definition updateQuestions ::
  "clock \<Rightarrow> firestore \<Rightarrow> StudyTracker \<Rightarrow> nat \<Rightarrow> counter \<Rightarrow> int \<Rightarrow> error + StudyTracker \<times> firestore" where
  "updateQuestions clk fs st subjectIndex type change =
     (if subjectIndex < length (subjectProgress st) then
        (let subject = subjectProgress st ! subjectIndex;
             newProgress = (subjectProgress st)
               [subjectIndex := setCounter type (max 0 (getCounter type subject + change)) subject];
             newTotal = sumQuestions newProgress;
             st' = st\<lparr>subjectProgress := newProgress, totalQuestions := newTotal\<rparr>
         in case currentUser st of
              None \<Rightarrow> Inr (st', fs)
            | Some uid \<Rightarrow>
                (case saveDailyProgressForDate clk fs uid
                        (progressForDate (selectedDate st) newProgress newTotal) of
                   (r, fs') \<Rightarrow> Inr (st', fs')))
      else Inl TypeError)"

text \<open>A sequence of \<open>updateQuestions\<close> calls on one counter, one call per delta.\<close>

fun updateQuestionsSeq ::
  "clock \<Rightarrow> firestore \<Rightarrow> StudyTracker \<Rightarrow> nat \<Rightarrow> counter \<Rightarrow> int list \<Rightarrow> error + StudyTracker \<times> firestore" where
  "updateQuestionsSeq clk fs st subjectIndex type [] = Inr (st, fs)"
| "updateQuestionsSeq clk fs st subjectIndex type (change # changes) =
     (case updateQuestions clk fs st subjectIndex type change of
        Inl e \<Rightarrow> Inl e
      | Inr (st', fs') \<Rightarrow> updateQuestionsSeq clk fs' st' subjectIndex type changes)"

text \<open>\<open>updateTarget\<close>\<close>

definition updateTarget :: "StudyTracker \<Rightarrow> nat \<Rightarrow> int \<Rightarrow> error + StudyTracker" where
  "updateTarget st subjectIndex newTarget =
     (if subjectIndex < length (subjectProgress st) then
        (let newProgress = (subjectProgress st)
               [subjectIndex := (subjectProgress st ! subjectIndex)\<lparr>target := max 1 newTarget\<rparr>]
         in Inr (st\<lparr>subjectProgress := newProgress, totalTarget := sumTargets newProgress\<rparr>))
      else Inl TypeError)"

text \<open>
  \<open>getProgressPercentage\<close> divides two numbers, so its result is a JavaScript number that
  need not be an integer and, on a zero divisor, need not be finite. A finite result is
  modelled by its exact real value (the rounding of doubles is not modelled); division by
  zero gives the IEEE results \<open>Infinity\<close>, \<open>-Infinity\<close> or \<open>NaN\<close>.
\<close>

datatype number = Finite real | PosInfinity | NegInfinity | NaN

definition divide_js :: "int \<Rightarrow> int \<Rightarrow> number" where
  "divide_js a b =
     (if b \<noteq> 0 then Finite (real_of_int a / real_of_int b)
      else if 0 < a then PosInfinity
      else if a < 0 then NegInfinity
      else NaN)"

text \<open>Multiplication by a positive finite constant, and \<open>Math.min\<close> with a finite constant.\<close>

fun times_js :: "number \<Rightarrow> real \<Rightarrow> number" where
  "times_js (Finite x) c = Finite (x * c)"
| "times_js PosInfinity c = PosInfinity"
| "times_js NegInfinity c = NegInfinity"
| "times_js NaN c = NaN"

fun Math_min :: "number \<Rightarrow> real \<Rightarrow> number" where
  "Math_min (Finite x) c = Finite (min x c)"
| "Math_min PosInfinity c = Finite c"
| "Math_min NegInfinity c = NegInfinity"
| "Math_min NaN c = NaN"

definition getProgressPercentage :: "SubjectData \<Rightarrow> number" where
  "getProgressPercentage subject =
     (let total = correct subject + wrong subject + empty subject
      in Math_min (times_js (divide_js total (target subject)) 100) 100)"

definition overallProgress :: "StudyTracker \<Rightarrow> number" where
  "overallProgress st =
     (if totalTarget st > 0
      then times_js (divide_js (totalQuestions st) (totalTarget st)) 100
      else Finite 0)"

subsection \<open>Rollups\<close>

text \<open>The tables \<open>allTimeStats\<close> and \<open>weeklyStats\<close> are only read by key, so they are maps.\<close>

definition seedStats :: "SubjectData list \<Rightarrow> (string \<rightharpoonup> SubjectCounts)" where
  "seedStats subjs =
     foldl (\<lambda>stats subject.
              stats(name subject \<mapsto>
                \<lparr> SubjectCounts.correct = correct subject,
                  SubjectCounts.wrong = wrong subject,
                  SubjectCounts.empty = empty subject,
                  SubjectCounts.total = correct subject + wrong subject + empty subject \<rparr>))
           Map.empty subjs"

definition addEntry ::
  "(string \<rightharpoonup> SubjectCounts) \<Rightarrow> string \<times> SubjectCounts \<Rightarrow> (string \<rightharpoonup> SubjectCounts)" where
  "addEntry stats entry =
     (case entry of (subjectName, data) \<Rightarrow>
        (case stats subjectName of
           Some s \<Rightarrow>
             stats(subjectName \<mapsto>
               \<lparr> SubjectCounts.correct = SubjectCounts.correct s + SubjectCounts.correct data,
                 SubjectCounts.wrong = SubjectCounts.wrong s + SubjectCounts.wrong data,
                 SubjectCounts.empty = SubjectCounts.empty s + SubjectCounts.empty data,
                 SubjectCounts.total = SubjectCounts.total s + SubjectCounts.total data \<rparr>)
         | None \<Rightarrow> stats))"

definition addDay :: "(string \<rightharpoonup> SubjectCounts) \<Rightarrow> DailyProgress \<Rightarrow> (string \<rightharpoonup> SubjectCounts)" where
  "addDay stats day = foldl addEntry stats (DailyProgressData.subjects day)"

definition calculateAllTimeStats :: "StudyTracker \<Rightarrow> (string \<rightharpoonup> SubjectCounts)" where
  "calculateAllTimeStats st =
     foldl addDay (seedStats (subjectProgress st)) (dailyHistory st)"

text \<open>
  \<open>calculateWeeklyStats\<close> reads the clock and parses the records' date strings. Times are
  milliseconds since the epoch. \<open>now\<close> is the value of \<open>new Date()\<close>; \<open>parse s\<close> is the
  time value of \<open>new Date(s)\<close>, \<open>None\<close> for an invalid date (every comparison with it is
  false).

  \<open>weekAgo.setDate(weekAgo.getDate() - 7)\<close> works on local time. The time zone of the
  browser is the function \<open>LocalTZA\<close> of ECMAScript: \<open>tza t True\<close> is the offset of local
  time from UTC at the UTC instant \<open>t\<close>, and \<open>tza t False\<close> the offset at the local time
  \<open>t\<close>. \<open>getDate\<close> is the day of the month of \<open>LocalTime now\<close>; \<open>setDate\<close> with that day minus
  seven keeps the local time within the day and moves the local day back by seven (\<open>MakeDay\<close>
  carries into the previous month), which is the local time \<open>LocalTime now - 7 * msPerDay\<close>,
  and stores the UTC instant of that local time.
\<close>

definition msPerDay :: int where
  "msPerDay = 86400000"

type_synonym timezone = "int \<Rightarrow> bool \<Rightarrow> int"

definition LocalTime :: "timezone \<Rightarrow> int \<Rightarrow> int" where
  "LocalTime tza t = t + tza t True"

definition UTC :: "timezone \<Rightarrow> int \<Rightarrow> int" where
  "UTC tza t = t - tza t False"

definition weekAgo :: "timezone \<Rightarrow> int \<Rightarrow> int" where
  "weekAgo tza now = UTC tza (LocalTime tza now - 7 * msPerDay)"

definition inLastWeek ::
  "timezone \<Rightarrow> (string \<Rightarrow> int option) \<Rightarrow> int \<Rightarrow> DailyProgress \<Rightarrow> bool" where
  "inLastWeek tza parse now day =
     (case parse (date day) of
        Some t \<Rightarrow> t \<ge> weekAgo tza now
      | None \<Rightarrow> False)"

definition calculateWeeklyStats ::
  "timezone \<Rightarrow> (string \<Rightarrow> int option) \<Rightarrow> int \<Rightarrow> StudyTracker
     \<Rightarrow> (string \<rightharpoonup> SubjectCounts)" where
  "calculateWeeklyStats tza parse now st =
     foldl addDay (seedStats (subjectProgress st))
       (filter (inLastWeek tza parse now) (dailyHistory st))"

section \<open>Notions used to state the properties\<close>

text \<open>
  What a daily record holds for a subject (its entry under that name, or zeros), the
  field-wise sum of two entries, the snapshot's subject of a given name (the last one should a
  name occur twice, as a later assignment to a table overwrites an earlier one), and the entry
  a snapshot subject seeds a rollup with.
\<close>

definition recordCounts :: "DailyProgress \<Rightarrow> string \<Rightarrow> SubjectCounts" where
  "recordCounts day subjectName =
     (case map_of (DailyProgressData.subjects day) subjectName of
        Some data \<Rightarrow> data
      | None \<Rightarrow> \<lparr> SubjectCounts.correct = 0, SubjectCounts.wrong = 0, SubjectCounts.empty = 0,
                  SubjectCounts.total = 0 \<rparr>)"

definition addCounts :: "SubjectCounts \<Rightarrow> SubjectCounts \<Rightarrow> SubjectCounts" where
  "addCounts s data =
     \<lparr> SubjectCounts.correct = SubjectCounts.correct s + SubjectCounts.correct data,
       SubjectCounts.wrong = SubjectCounts.wrong s + SubjectCounts.wrong data,
       SubjectCounts.empty = SubjectCounts.empty s + SubjectCounts.empty data,
       SubjectCounts.total = SubjectCounts.total s + SubjectCounts.total data \<rparr>"

definition snapshotSubject :: "SubjectData list \<Rightarrow> string \<Rightarrow> SubjectData" where
  "snapshotSubject subjs subjectName =
     last (filter (\<lambda>subject. name subject = subjectName) subjs)"

definition ownCounts :: "SubjectData \<Rightarrow> SubjectCounts" where
  "ownCounts subject =
     \<lparr> SubjectCounts.correct = correct subject,
       SubjectCounts.wrong = wrong subject,
       SubjectCounts.empty = empty subject,
       SubjectCounts.total = correct subject + wrong subject + empty subject \<rparr>"

text \<open>
  Whether the store fails the next request. The two facts the writers of the catalog
  maintain: every stored catalog document holds the sum of its subjects' targets as its
  \<open>totalTarget\<close>, and so does the component's state once it holds any subject.
\<close>

definition nextFails :: "firestore \<Rightarrow> bool" where
  "nextFails fs = (case failures fs of [] \<Rightarrow> False | f # rest \<Rightarrow> f)"

definition catalogSums :: "firestore \<Rightarrow> bool" where
  "catalogSums fs =
     (\<forall>up\<in>ran (userProgress_docs fs).
        UserProgress.totalTarget up = sumTargets (UserProgress.subjects up))"

definition snapshotSums :: "StudyTracker \<Rightarrow> bool" where
  "snapshotSums st =
     (subjectProgress st = [] \<or> StudyTracker.totalTarget st = sumTargets (subjectProgress st))"

text \<open>
  By how much the offset of local time at the current instant differs from the offset at the
  same local time seven days earlier: zero unless the clocks changed in between.
\<close>

definition offsetShift :: "timezone \<Rightarrow> int \<Rightarrow> int" where
  "offsetShift tza now = tza now True - tza (LocalTime tza now - 7 * msPerDay) False"

text \<open>
  A run of \<open>saveDailyProgressForDate\<close> calls for one user, and the document such a call
  hands to \<open>setDoc\<close>.
\<close>

fun saveDailySeq :: "firestore \<Rightarrow> string \<Rightarrow> (clock \<times> DailyProgressData) list \<Rightarrow> firestore" where
  "saveDailySeq fs uid [] = fs"
| "saveDailySeq fs uid ((clk, dailyProgress) # writes) =
     saveDailySeq (snd (saveDailyProgressForDate clk fs uid dailyProgress)) uid writes"

definition dailyData :: "clock \<Rightarrow> string \<Rightarrow> DailyProgressData \<Rightarrow> DailyProgress" where
  "dailyData clk uid dailyProgress =
     \<lparr> date = date dailyProgress,
       subjects = DailyProgressData.subjects dailyProgress,
       total = total dailyProgress,
       totalTarget = DailyProgressData.totalTarget dailyProgress,
       userId = uid,
       timestamp = serverTimestamp clk \<rparr>"

section \<open>Example inputs\<close>

definition exampleClock :: clock where
  "exampleClock = \<lparr> serverTimestamp = 1705312800000, isoDate = ''2024-01-15'' \<rparr>"

definition emptyStore :: firestore where
  "emptyStore =
     \<lparr> userProgress_docs = Map.empty, userSettings_docs = Map.empty, dailyHistory_docs = [],
       failures = [], requests = [] \<rparr>"

definition mathOnly :: StudyTracker where
  "mathOnly =
     \<lparr> currentUser = Some ''u1'',
       subjectProgress =
         [\<lparr> name = ''Matematik'', icon = [], correct = 5, wrong = 0, empty = 0, target = 15,
            color = ''bg-blue-500'' \<rparr>],
       dailyHistory = [],
       totalQuestions = 5,
       totalTarget = 15,
       dataLoading = False,
       saveLoading = False,
       selectedDate = ''2024-01-15'' \<rparr>"

definition mathCatalog :: UserProgress where
  "mathCatalog =
     \<lparr> UserProgress.subjects =
         [\<lparr> name = ''Matematik'', icon = [], correct = 0, wrong = 0, empty = 0, target = 15,
            color = ''bg-blue-500'' \<rparr>,
          \<lparr> name = ''Fen Bilimleri'', icon = [], correct = 0, wrong = 0, empty = 0, target = 12,
            color = ''bg-purple-500'' \<rparr>],
       UserProgress.totalTarget = 27,
       UserProgress.lastUpdated = 1705000000000,
       lastUpdateDate = Some ''2024-01-11'' \<rparr>"

definition mathRecord :: DailyProgress where
  "mathRecord =
     \<lparr> date = ''2024-01-15'',
       subjects = [(''Matematik'',
          \<lparr> SubjectCounts.correct = 5, SubjectCounts.wrong = 2, SubjectCounts.empty = 0,
            SubjectCounts.total = 7 \<rparr>)],
       total = 7,
       totalTarget = Some 99,
       userId = ''u1'',
       timestamp = 1705312000000 \<rparr>"

definition exampleStore :: firestore where
  "exampleStore =
     \<lparr> userProgress_docs = [''u1'' \<mapsto> mathCatalog],
       userSettings_docs = Map.empty,
       dailyHistory_docs = [(''u1_2024-01-15'', mathRecord)],
       failures = [],
       requests = [] \<rparr>"

text \<open>The same store when it answers the first request and fails the second.\<close>

definition failedReadStore :: firestore where
  "failedReadStore = exampleStore\<lparr>failures := [False, True]\<rparr>"

definition zeroTarget :: SubjectData where
  "zeroTarget =
     \<lparr> name = ''Matematik'', icon = [], correct = 5, wrong = 2, empty = 0, target = 0,
       color = ''bg-blue-500'' \<rparr>"

definition exampleNow :: int where
  "exampleNow = 1705312800000"

definition exampleParse :: "string \<Rightarrow> int option" where
  "exampleParse =
     map_of [(''2024-01-05'', 19727 * msPerDay), (''2024-01-07'', 19729 * msPerDay),
             (''2024-01-08'', 19730 * msPerDay), (''2024-01-12'', 19734 * msPerDay),
             (''2024-01-15'', 19737 * msPerDay)]"

text \<open>
  Two time zones: UTC, and New York in 2024, where daylight saving time runs from 2024-03-10
  at 07:00 UTC (02:00 local time, which becomes 03:00) to 2024-11-03 at 06:00 UTC (02:00 local
  time, which becomes 01:00). A local time that the clocks skip is read with the offset before
  the change, and one that occurs twice as the earlier instant. \<open>springNow\<close> is 2024-03-14
  at 23:30 UTC and \<open>autumnNow\<close> is 2024-11-05 at 00:30 UTC.
\<close>

definition utcZone :: timezone where
  "utcZone t isUTC = 0"

definition newYorkZone :: timezone where
  "newYorkZone t isUTC =
     (if isUTC
      then (if 19792 * msPerDay + 25200000 \<le> t \<and> t < 20030 * msPerDay + 21600000
            then - 14400000 else - 18000000)
      else (if 19792 * msPerDay + 10800000 \<le> t \<and> t < 20030 * msPerDay + 7200000
            then - 14400000 else - 18000000))"

definition springNow :: int where
  "springNow = 19796 * msPerDay + 84600000"

definition autumnNow :: int where
  "autumnNow = 20032 * msPerDay + 1800000"

definition newYorkParse :: "string \<Rightarrow> int option" where
  "newYorkParse =
     map_of [(''2024-03-08'', 19790 * msPerDay), (''2024-10-22'', 20018 * msPerDay),
             (''2024-10-29'', 20025 * msPerDay), (''2024-10-30'', 20026 * msPerDay),
             (''2024-11-02'', 20029 * msPerDay)]"

definition mathDay :: "string \<Rightarrow> int \<Rightarrow> DailyProgress" where
  "mathDay d n =
     \<lparr> date = d,
       subjects = [(''Matematik'',
          \<lparr> SubjectCounts.correct = n, SubjectCounts.wrong = 0, SubjectCounts.empty = 0,
            SubjectCounts.total = n \<rparr>),
         (''Kimya'',
          \<lparr> SubjectCounts.correct = 9, SubjectCounts.wrong = 9, SubjectCounts.empty = 9,
            SubjectCounts.total = 27 \<rparr>)],
       total = n + 27,
       totalTarget = None,
       userId = ''u1'',
       timestamp = 0 \<rparr>"

definition weekTracker :: StudyTracker where
  "weekTracker =
     mathOnly\<lparr>dailyHistory :=
       [mathDay ''2024-01-12'' 1, mathDay ''2024-01-08'' 10, mathDay ''2024-01-07'' 100,
        mathDay ''2024-01-05'' 1000]\<rparr>"

definition fenPayload :: DailyProgressData where
  "fenPayload =
     \<lparr> date = ''2024-01-15'',
       subjects = [(''Fen Bilimleri'',
          \<lparr> SubjectCounts.correct = 1, SubjectCounts.wrong = 0, SubjectCounts.empty = 0,
            SubjectCounts.total = 1 \<rparr>)],
       total = 1,
       totalTarget = None \<rparr>"

definition failingStore :: firestore where
  "failingStore = exampleStore\<lparr>failures := [True]\<rparr>"

definition laterClock :: clock where
  "laterClock = \<lparr> serverTimestamp = 1705399200000, isoDate = ''2024-01-16'' \<rparr>"

section \<open>Counters under repeated updates\<close>

lemma clamp_nonneg: "0 \<le> c \<Longrightarrow> (0::int) \<le> foldl (\<lambda>c d. max 0 (c + d)) c ds"
  by (induction ds arbitrary: c) auto

lemma clamp_lower: "c + sum_list ds \<le> foldl (\<lambda>c d. max 0 (c + d)) c (ds :: int list)"
proof (induction ds arbitrary: c)
  case Nil
  then show ?case by simp
next
  case (Cons d ds)
  have "c + sum_list (d # ds) \<le> max 0 (c + d) + sum_list ds"
    by simp
  also have "\<dots> \<le> foldl (\<lambda>c d. max 0 (c + d)) (max 0 (c + d)) ds"
    by (rule Cons.IH)
  finally show ?case by simp
qed

lemma clamp_exact:
  "(\<forall>k\<le>length ds. 0 \<le> c + sum_list (take k ds))
     \<Longrightarrow> foldl (\<lambda>c d. max 0 (c + d)) c ds = c + sum_list (ds :: int list)"
proof (induction ds arbitrary: c)
  case Nil
  then show ?case by simp
next
  case (Cons d ds)
  have step: "0 \<le> c + d"
    using Cons.prems[rule_format, of 1] by simp
  have "\<forall>k\<le>length ds. 0 \<le> (c + d) + sum_list (take k ds)"
  proof (intro allI impI)
    fix k
    assume "k \<le> length ds"
    then show "0 \<le> (c + d) + sum_list (take k ds)"
      using Cons.prems[rule_format, of "Suc k"] by (simp add: add.assoc)
  qed
  then have "foldl (\<lambda>c d. max 0 (c + d)) (c + d) ds = (c + d) + sum_list ds"
    by (rule Cons.IH)
  moreover have "max 0 (c + d) = c + d"
    using step by simp
  ultimately show ?case by (simp add: add.assoc)
qed

lemma updateQuestions_counter:
  assumes "i < length (subjectProgress st)"
  shows "\<exists>st' fs'. updateQuestions clk fs st i ty d = Inr (st', fs')
           \<and> length (subjectProgress st') = length (subjectProgress st)
           \<and> getCounter ty (subjectProgress st' ! i)
               = max 0 (getCounter ty (subjectProgress st ! i) + d)"
  using assms
  by (cases ty) (auto simp: updateQuestions_def Let_def split: option.splits prod.splits)

lemma updateQuestionsSeq_counter:
  assumes "i < length (subjectProgress st)"
  shows "\<exists>st' fs'. updateQuestionsSeq clk fs st i ty ds = Inr (st', fs')
           \<and> length (subjectProgress st') = length (subjectProgress st)
           \<and> getCounter ty (subjectProgress st' ! i)
               = foldl (\<lambda>c d. max 0 (c + d)) (getCounter ty (subjectProgress st ! i)) ds"
  using assms
proof (induction ds arbitrary: st fs)
  case Nil
  then show ?case by simp
next
  case (Cons d ds)
  from updateQuestions_counter[OF Cons.prems, of clk fs ty d]
  obtain st1 fs1 where 1: "updateQuestions clk fs st i ty d = Inr (st1, fs1)"
    and 2: "length (subjectProgress st1) = length (subjectProgress st)"
    and 3: "getCounter ty (subjectProgress st1 ! i)
              = max 0 (getCounter ty (subjectProgress st ! i) + d)"
    by blast
  from Cons.prems 2 have "i < length (subjectProgress st1)"
    by simp
  from Cons.IH[OF this, of fs1] 1 2 3 show ?case
    by auto
qed

text \<open>
  C3, as amended. Every call of \<open>updateQuestions\<close> sets the counter to
  \<open>max(0, old + delta)\<close>, so after a sequence of calls on a counter that starts non-negative
  the counter is the clamped step folded over the deltas. It is never negative and never below
  \<open>max(0, initial + sum(d))\<close>; it equals that value when no step was clamped, that is when
  every running sum \<open>initial + d1 + ... + dk\<close> is non-negative.
\<close>

theorem counter_after_sequence:
  assumes "i < length (subjectProgress st)"
    and "0 \<le> getCounter ty (subjectProgress st ! i)"
  shows "\<exists>st' fs'. updateQuestionsSeq clk fs st i ty ds = Inr (st', fs')
           \<and> getCounter ty (subjectProgress st' ! i)
               = foldl (\<lambda>c d. max 0 (c + d)) (getCounter ty (subjectProgress st ! i)) ds
           \<and> 0 \<le> getCounter ty (subjectProgress st' ! i)
           \<and> max 0 (getCounter ty (subjectProgress st ! i) + sum_list ds)
               \<le> getCounter ty (subjectProgress st' ! i)
           \<and> ((\<forall>k\<le>length ds. 0 \<le> getCounter ty (subjectProgress st ! i) + sum_list (take k ds))
                \<longrightarrow> getCounter ty (subjectProgress st' ! i)
                    = max 0 (getCounter ty (subjectProgress st ! i) + sum_list ds))"
proof -
  let ?c = "getCounter ty (subjectProgress st ! i)"
  let ?r = "foldl (\<lambda>c d. max 0 (c + d)) ?c ds"
  from updateQuestionsSeq_counter[OF assms(1), of clk fs ty ds]
  obtain st' fs' where run: "updateQuestionsSeq clk fs st i ty ds = Inr (st', fs')"
    and val: "getCounter ty (subjectProgress st' ! i) = ?r"
    by blast
  have nonneg: "0 \<le> ?r"
    by (rule clamp_nonneg[OF assms(2)])
  have lower: "max 0 (?c + sum_list ds) \<le> ?r"
    using nonneg clamp_lower[of ?c ds] by simp
  have exact: "(\<forall>k\<le>length ds. 0 \<le> ?c + sum_list (take k ds)) \<longrightarrow> ?r = max 0 (?c + sum_list ds)"
  proof
    assume pre: "\<forall>k\<le>length ds. 0 \<le> ?c + sum_list (take k ds)"
    from pre[rule_format, of "length ds"] have "0 \<le> ?c + sum_list ds"
      by simp
    with clamp_exact[OF pre] show "?r = max 0 (?c + sum_list ds)"
      by simp
  qed
  from run val nonneg lower exact show ?thesis
    by auto
qed

theorem counter_after_sequence_witness:
  "0 < length (subjectProgress mathOnly)
   \<and> 0 \<le> getCounter Wrong (subjectProgress mathOnly ! 0)
   \<and> 0 \<le> getCounter Wrong (subjectProgress mathOnly ! 0) + sum_list (take 0 [1, -1, 1])
   \<and> 0 \<le> getCounter Wrong (subjectProgress mathOnly ! 0) + sum_list (take 1 [1, -1, 1])
   \<and> 0 \<le> getCounter Wrong (subjectProgress mathOnly ! 0) + sum_list (take 2 [1, -1, 1])
   \<and> 0 \<le> getCounter Wrong (subjectProgress mathOnly ! 0) + sum_list (take 3 [1, -1, 1])
   \<and> (\<exists>st' fs'. updateQuestionsSeq exampleClock emptyStore mathOnly 0 Wrong [1, -1, 1] = Inr (st', fs')
         \<and> getCounter Wrong (subjectProgress st' ! 0) = 1)"
proof -
  have pre: "\<forall>k\<le>length [1, -1, 1 :: int].
      0 \<le> getCounter Wrong (subjectProgress mathOnly ! 0) + sum_list (take k [1, -1, 1])"
  proof (intro allI impI)
    fix k :: nat
    assume "k \<le> length [1, -1, 1 :: int]"
    then have "k = 0 \<or> k = 1 \<or> k = 2 \<or> k = 3"
      by auto
    then show "0 \<le> getCounter Wrong (subjectProgress mathOnly ! 0) + sum_list (take k [1, -1, 1])"
      by (auto simp: mathOnly_def)
  qed
  from pre counter_after_sequence[of 0 mathOnly Wrong exampleClock emptyStore "[1, -1, 1]"]
  show ?thesis
    by (auto simp: mathOnly_def)
qed

text \<open>
  C3 as stated fails: from 0 the deltas \<open>-1, +1\<close> leave the counter at 1, while
  \<open>max(0, initial + sum(d))\<close> is 0.
\<close>

theorem counter_formula_counterexample:
  "\<not> isl (updateQuestionsSeq exampleClock emptyStore mathOnly 0 Wrong [-1, 1])
   \<and> getCounter Wrong
        (subjectProgress
           (fst (projr (updateQuestionsSeq exampleClock emptyStore mathOnly 0 Wrong [-1, 1]))) ! 0)
      \<noteq> max 0 (getCounter Wrong (subjectProgress mathOnly ! 0) + sum_list [-1, 1])"
  by (simp add: updateQuestions_def mathOnly_def Let_def saveDailyProgressForDate_def issue_def
        emptyStore_def split: prod.splits)

section \<open>Loading the snapshot\<close>

lemma foldl_add_sum: "foldl (\<lambda>sum x. sum + f x) a xs = (a::int) + sum_list (map f xs)"
  by (induction xs arbitrary: a) (auto simp: add.assoc)

lemma sumQuestions_sum_list:
  "sumQuestions subjs = (\<Sum>s\<leftarrow>subjs. correct s + wrong s + empty s)"
proof -
  have "sumQuestions subjs = foldl (\<lambda>sum s. sum + (correct s + wrong s + empty s)) 0 subjs"
    by (simp add: sumQuestions_def add.assoc)
  then show ?thesis by (simp add: foldl_add_sum)
qed

lemma sumTargets_sum_list: "sumTargets subjs = (\<Sum>s\<leftarrow>subjs. target s)"
  by (simp add: sumTargets_def foldl_add_sum)

text \<open>The writers of the catalog's total target store the sum of the targets.\<close>

lemma updateTarget_total:
  "updateTarget st i newTarget = Inr st'
     \<Longrightarrow> StudyTracker.totalTarget st' = (\<Sum>s\<leftarrow>subjectProgress st'. target s)"
  by (auto simp: updateTarget_def Let_def sumTargets_sum_list split: if_splits)

lemma default_total: "sumTargets defaultSubjects = (\<Sum>s\<leftarrow>defaultSubjects. target s)"
  by (rule sumTargets_sum_list)

lemma updateQuestions_total:
  "updateQuestions clk fs st i ty d = Inr (st', fs') \<Longrightarrow> totalQuestions st' = sumQuestions (subjectProgress st')"
  by (auto simp: updateQuestions_def Let_def split: if_splits option.splits prod.splits)

lemma load_total:
  "totalQuestions (fst (loadUserDataForDate clk fs st d)) = sumQuestions (subjectProgress (fst (loadUserDataForDate clk fs st d)))
   \<or> (subjectProgress (fst (loadUserDataForDate clk fs st d)) = subjectProgress st
       \<and> totalQuestions (fst (loadUserDataForDate clk fs st d)) = totalQuestions st)"
  by (auto simp: loadUserDataForDate_def Let_def split: option.splits prod.splits sum.splits)

lemma getDaily_Inr: "\<exists>r. fst (getDailyProgressForDate fs uid d) = Inr r"
  by (auto simp: getDailyProgressForDate_def Let_def split: prod.splits bool.splits)

lemma load_snapshot:
  assumes "currentUser st = Some uid"
    and "fetchUserProgress clk fs uid = (Inr (Some up), fs1)"
    and "getDailyProgressForDate fs1 uid d = (Inr dp, fs2)"
  shows "subjectProgress (fst (loadUserDataForDate clk fs st d)) = finalSubjects up dp"
    and "StudyTracker.totalTarget (fst (loadUserDataForDate clk fs st d)) = UserProgress.totalTarget up"
    and "totalQuestions (fst (loadUserDataForDate clk fs st d)) = sumQuestions (finalSubjects up dp)"
  using assms
  by (auto simp: loadUserDataForDate_def Let_def split: option.splits prod.splits sum.splits)

lemma finalSubjects_length: "length (finalSubjects up dp) = length (UserProgress.subjects up)"
  by (simp add: finalSubjects_def split: option.splits)

lemma finalSubjects_nth:
  assumes "j < length (UserProgress.subjects up)"
  shows "finalSubjects up dp ! j =
     (case (case dp of None \<Rightarrow> None
            | Some r \<Rightarrow> map_of (DailyProgressData.subjects r) (name (UserProgress.subjects up ! j))) of
        Some e \<Rightarrow> (UserProgress.subjects up ! j)
                    \<lparr>correct := SubjectCounts.correct e, wrong := SubjectCounts.wrong e,
                     empty := SubjectCounts.empty e\<rparr>
      | None \<Rightarrow> (UserProgress.subjects up ! j)\<lparr>correct := 0, wrong := 0, empty := 0\<rparr>)"
  using assms by (simp add: finalSubjects_def split: option.splits)

lemma finalSubjects_targets: "map target (finalSubjects up dp) = map target (UserProgress.subjects up)"
  by (auto simp: finalSubjects_def split: option.splits)

subsection \<open>The catalog's total target\<close>

text \<open>
  No request changes a collection it does not write, and \<open>userProgress\<close> is written only by
  \<open>saveUserProgress\<close>: from \<open>initializeUserProgress\<close> with the defaults and their sum, and from
  \<open>saveProgress\<close> with the state's subjects and total target. So every stored catalog keeps
  the sum of its targets as its total target.
\<close>

lemma catalogSums_iff:
  "catalogSums fs \<longleftrightarrow>
     (\<forall>uid up. userProgress_docs fs uid = Some up
        \<longrightarrow> UserProgress.totalTarget up = sumTargets (UserProgress.subjects up))"
  by (auto simp: catalogSums_def ran_def)

lemma issue_docs:
  "userProgress_docs (snd (issue r fs)) = userProgress_docs fs"
  "dailyHistory_docs (snd (issue r fs)) = dailyHistory_docs fs"
  by (simp_all add: issue_def split: list.splits)

lemma issue_nextFails: "fst (issue r fs) = (\<not> nextFails fs)"
  by (simp add: issue_def nextFails_def split: list.splits)

lemma getUserProgress_docs:
  "userProgress_docs (snd (getUserProgress fs uid)) = userProgress_docs fs"
  "dailyHistory_docs (snd (getUserProgress fs uid)) = dailyHistory_docs fs"
  using issue_docs[of "GetDoc ''userProgress'' uid" fs]
  by (auto simp: getUserProgress_def split: prod.splits bool.splits)

lemma getUserProgress_result:
  "getUserProgress fs uid = (Inr r, fs') \<Longrightarrow> r = userProgress_docs fs uid"
  using issue_docs[of "GetDoc ''userProgress'' uid" fs]
  by (auto simp: getUserProgress_def split: prod.splits bool.splits)

lemma saveUserProgress_docs:
  "dailyHistory_docs (snd (saveUserProgress clk fs uid subjs tt)) = dailyHistory_docs fs"
  using issue_docs[of "SetDoc ''userProgress'' uid" fs]
  by (auto simp: saveUserProgress_def split: prod.splits bool.splits)

lemma saveUserProgress_sums:
  assumes "catalogSums fs" and "tt = sumTargets subjs"
  shows "catalogSums (snd (saveUserProgress clk fs uid subjs tt))"
  using assms issue_docs(1)[of "SetDoc ''userProgress'' uid" fs]
  by (auto simp: catalogSums_iff saveUserProgress_def split: prod.splits bool.splits if_splits)

lemma initializeUserProgress_sums:
  assumes "catalogSums fs"
  shows "catalogSums (snd (initializeUserProgress clk fs uid))"
proof -
  have g: "catalogSums (snd (getUserProgress fs uid))"
    using assms by (simp add: catalogSums_def getUserProgress_docs)
  show ?thesis
    using g saveUserProgress_sums[of "snd (getUserProgress fs uid)" "sumTargets defaultSubjects" defaultSubjects clk uid]
    by (auto simp: initializeUserProgress_def split: prod.splits sum.splits option.splits)
qed

lemma initializeUserProgress_docs:
  "dailyHistory_docs (snd (initializeUserProgress clk fs uid)) = dailyHistory_docs fs"
  using getUserProgress_docs(2)[of fs uid]
    saveUserProgress_docs[of clk "snd (getUserProgress fs uid)" uid defaultSubjects "sumTargets defaultSubjects"]
  by (auto simp: initializeUserProgress_def split: prod.splits sum.splits option.splits)

lemma fetchUserProgress_sums:
  assumes "catalogSums fs"
  shows "catalogSums (snd (fetchUserProgress clk fs uid))"
proof -
  let ?fs1 = "snd (getUserProgress fs uid)"
  let ?fs2 = "snd (initializeUserProgress clk ?fs1 uid)"
  let ?fs3 = "snd (getUserProgress ?fs2 uid)"
  have 1: "catalogSums ?fs1"
    using assms by (simp add: catalogSums_def getUserProgress_docs)
  have 2: "catalogSums ?fs2"
    by (rule initializeUserProgress_sums[OF 1])
  have 3: "catalogSums ?fs3"
    using 2 by (simp add: catalogSums_def getUserProgress_docs)
  show ?thesis
    using 1 2 3
    by (auto simp: fetchUserProgress_def split: prod.splits sum.splits option.splits)
qed

lemma fetchUserProgress_docs:
  "dailyHistory_docs (snd (fetchUserProgress clk fs uid)) = dailyHistory_docs fs"
proof -
  let ?fs1 = "snd (getUserProgress fs uid)"
  let ?fs2 = "snd (initializeUserProgress clk ?fs1 uid)"
  let ?fs3 = "snd (getUserProgress ?fs2 uid)"
  have 1: "dailyHistory_docs ?fs1 = dailyHistory_docs fs"
    by (rule getUserProgress_docs)
  have 2: "dailyHistory_docs ?fs2 = dailyHistory_docs fs"
    using 1 by (simp add: initializeUserProgress_docs)
  have 3: "dailyHistory_docs ?fs3 = dailyHistory_docs fs"
    using 2 by (simp add: getUserProgress_docs)
  show ?thesis
    using 1 2 3
    by (auto simp: fetchUserProgress_def split: prod.splits sum.splits option.splits)
qed

lemma fetchUserProgress_catalog:
  assumes "fetchUserProgress clk fs uid = (Inr (Some up), fs1)"
  shows "userProgress_docs fs1 uid = Some up"
proof -
  let ?fs1 = "snd (getUserProgress fs uid)"
  let ?fs2 = "snd (initializeUserProgress clk ?fs1 uid)"
  let ?fs3 = "snd (getUserProgress ?fs2 uid)"
  have a: "\<And>r f. getUserProgress fs uid = (Inr r, f) \<Longrightarrow> r = userProgress_docs f uid"
    using getUserProgress_result getUserProgress_docs(1)[of fs uid] by fastforce
  have b: "\<And>r f. getUserProgress ?fs2 uid = (Inr r, f) \<Longrightarrow> r = userProgress_docs f uid"
    using getUserProgress_result getUserProgress_docs(1)[of ?fs2 uid] by fastforce
  show ?thesis
    using assms a b
    by (auto simp: fetchUserProgress_def split: prod.splits sum.splits option.splits)
qed

lemma fetched_catalog_sums:
  assumes "catalogSums fs" and "fetchUserProgress clk fs uid = (Inr (Some up), fs1)"
  shows "UserProgress.totalTarget up = sumTargets (UserProgress.subjects up)"
proof -
  have "catalogSums fs1"
    using fetchUserProgress_sums[OF assms(1), of clk uid] assms(2) by simp
  then show ?thesis
    using fetchUserProgress_catalog[OF assms(2)] by (simp add: catalogSums_iff)
qed

lemma getDaily_read:
  "fst (getDailyProgressForDate fs uid d)
     = Inr (if nextFails fs then None else map_of (dailyHistory_docs fs) (dailyDocId uid d))"
  using issue_nextFails[of "GetDoc ''dailyHistory'' (dailyDocId uid d)" fs]
    issue_docs(2)[of "GetDoc ''dailyHistory'' (dailyDocId uid d)" fs]
  by (auto simp: getDailyProgressForDate_def Let_def split: prod.splits bool.splits)

lemma getDaily_docs:
  "userProgress_docs (snd (getDailyProgressForDate fs uid d)) = userProgress_docs fs"
  using issue_docs(1)[of "GetDoc ''dailyHistory'' (dailyDocId uid d)" fs]
  by (auto simp: getDailyProgressForDate_def Let_def split: prod.splits bool.splits)

lemma getUserDailyHistory_docs:
  "userProgress_docs (snd (getUserDailyHistory fs uid n)) = userProgress_docs fs"
  using issue_docs(1)[of "GetDocs ''dailyHistory''" fs]
  by (auto simp: getUserDailyHistory_def split: prod.splits bool.splits)

lemma saveDaily_docs:
  "userProgress_docs (snd (saveDailyProgressForDate clk fs uid p)) = userProgress_docs fs"
  using issue_docs(1)[of "SetDocMerge ''dailyHistory'' (dailyDocId uid (date p))" fs]
  by (auto simp: saveDailyProgressForDate_def Let_def split: prod.splits bool.splits)

text \<open>Every operation of the page keeps the two invariants.\<close>

lemma load_sums:
  assumes "catalogSums fs"
  shows "catalogSums (snd (loadUserDataForDate clk fs st d))"
proof (cases "currentUser st")
  case None
  then show ?thesis using assms by (simp add: loadUserDataForDate_def)
next
  case (Some uid)
  let ?fs1 = "snd (fetchUserProgress clk fs uid)"
  let ?fs2 = "snd (getDailyProgressForDate ?fs1 uid d)"
  have 1: "catalogSums ?fs1"
    by (rule fetchUserProgress_sums[OF assms])
  have 2: "catalogSums ?fs2"
    using 1 by (simp add: catalogSums_def getDaily_docs)
  have 3: "catalogSums (snd (getUserDailyHistory ?fs1 uid 7))"
    using 1 by (simp add: catalogSums_def getUserDailyHistory_docs)
  have 4: "catalogSums (snd (getUserDailyHistory ?fs2 uid 7))"
    using 2 by (simp add: catalogSums_def getUserDailyHistory_docs)
  show ?thesis
    using Some 1 2 3 4
    by (auto simp: loadUserDataForDate_def Let_def split: prod.splits sum.splits option.splits)
qed

lemma load_snapshotSums:
  assumes "catalogSums fs" and "snapshotSums st"
  shows "snapshotSums (fst (loadUserDataForDate clk fs st d))"
proof (cases "currentUser st")
  case None
  then show ?thesis using assms by (simp add: loadUserDataForDate_def)
next
  case (Some uid)
  have t: "\<And>up dp. sumTargets (finalSubjects up dp) = sumTargets (UserProgress.subjects up)"
    by (simp add: sumTargets_sum_list finalSubjects_targets)
  have c: "\<And>up fs1. fetchUserProgress clk fs uid = (Inr (Some up), fs1)
      \<Longrightarrow> UserProgress.totalTarget up = sumTargets (UserProgress.subjects up)"
    by (rule fetched_catalog_sums[OF assms(1)])
  show ?thesis
    using Some assms(2) c t
    by (auto simp: loadUserDataForDate_def snapshotSums_def Let_def
          split: prod.splits sum.splits option.splits)
qed

lemma saveProgress_sums:
  assumes "catalogSums fs" and "snapshotSums st"
  shows "catalogSums (snd (saveProgress clk fs st))"
proof -
  have "\<And>uid. subjectProgress st \<noteq> []
      \<Longrightarrow> catalogSums (snd (saveUserProgress clk fs uid (subjectProgress st) (StudyTracker.totalTarget st)))"
    using assms by (intro saveUserProgress_sums) (simp_all add: snapshotSums_def)
  then show ?thesis
    using assms(1)
    by (auto simp: saveProgress_def split: option.splits prod.splits) (metis snd_conv)
qed

lemma saveProgress_snapshotSums:
  "snapshotSums st \<Longrightarrow> snapshotSums (fst (saveProgress clk fs st))"
  by (auto simp: saveProgress_def snapshotSums_def split: option.splits prod.splits)

lemma setCounter_target: "target (setCounter ty v s) = target s"
  by (cases ty) simp_all

lemma sumTargets_update:
  "i < length subjs \<Longrightarrow> target s = target (subjs ! i) \<Longrightarrow> sumTargets (subjs[i := s]) = sumTargets subjs"
proof -
  assume i: "i < length subjs" and s: "target s = target (subjs ! i)"
  have "(map target subjs)[i := target (subjs ! i)] = map target subjs"
    using i by (simp add: list_update_same_conv)
  then show ?thesis
    using s by (simp add: sumTargets_sum_list map_update)
qed

lemma updateQuestions_sums:
  assumes "updateQuestions clk fs st i ty d = Inr (st', fs')"
  shows "catalogSums fs \<Longrightarrow> catalogSums fs'"
    and "snapshotSums st \<Longrightarrow> snapshotSums st'"
proof -
  from assms have i: "i < length (subjectProgress st)"
    by (auto simp: updateQuestions_def split: if_splits)
  let ?new = "(subjectProgress st)[i := setCounter ty (max 0 (getCounter ty (subjectProgress st ! i) + d)) (subjectProgress st ! i)]"
  have t: "sumTargets ?new = sumTargets (subjectProgress st)"
    using i by (simp add: sumTargets_update setCounter_target)
  from assms i have st': "subjectProgress st' = ?new" "StudyTracker.totalTarget st' = StudyTracker.totalTarget st"
    by (auto simp: updateQuestions_def Let_def split: option.splits prod.splits)
  from assms i have fs': "userProgress_docs fs' = userProgress_docs fs"
    using saveDaily_docs
    by (auto simp: updateQuestions_def Let_def split: option.splits prod.splits) (metis snd_conv)
  show "catalogSums fs \<Longrightarrow> catalogSums fs'"
    by (simp add: catalogSums_def fs')
  show "snapshotSums st \<Longrightarrow> snapshotSums st'"
    using i by (auto simp: snapshotSums_def st' t)
qed

lemma updateTarget_snapshotSums:
  "updateTarget st i newTarget = Inr st' \<Longrightarrow> snapshotSums st'"
  by (auto simp: updateTarget_def snapshotSums_def Let_def split: if_splits)

lemma initial_sums: "catalogSums emptyStore" "snapshotSums (initialTracker clk)"
  by (simp_all add: catalogSums_def emptyStore_def snapshotSums_def initialTracker_def)

text \<open>What a load reads: the catalog, and the document stored under the user's and date's
  key unless that read fails.\<close>

lemma load_read:
  assumes user: "currentUser st = Some uid"
    and catalog: "fetchUserProgress clk fs uid = (Inr (Some up), fs1)"
  shows "subjectProgress (fst (loadUserDataForDate clk fs st d))
       = finalSubjects up (if nextFails fs1 then None
                           else map_of (dailyHistory_docs fs) (dailyDocId uid d))"
    and "StudyTracker.totalTarget (fst (loadUserDataForDate clk fs st d)) = UserProgress.totalTarget up"
proof -
  let ?dp = "if nextFails fs1 then None else map_of (dailyHistory_docs fs1) (dailyDocId uid d)"
  have "fst (getDailyProgressForDate fs1 uid d) = Inr ?dp"
    by (rule getDaily_read)
  then have daily: "getDailyProgressForDate fs1 uid d = (Inr ?dp, snd (getDailyProgressForDate fs1 uid d))"
    by (metis prod.collapse)
  have docs: "dailyHistory_docs fs1 = dailyHistory_docs fs"
    using fetchUserProgress_docs[of clk fs uid] catalog by simp
  from load_snapshot(1)[OF user catalog daily] docs
  show "subjectProgress (fst (loadUserDataForDate clk fs st d))
       = finalSubjects up (if nextFails fs1 then None
                           else map_of (dailyHistory_docs fs) (dailyDocId uid d))"
    by simp
  from load_snapshot(2)[OF user catalog daily]
  show "StudyTracker.totalTarget (fst (loadUserDataForDate clk fs st d)) = UserProgress.totalTarget up" .
qed

text \<open>
  C4, as amended. When the catalog \<open>up\<close> has been fetched for the signed-in user, the loaded
  snapshot has the catalog's subjects in the catalog's order, each with its catalog name,
  icon, target and colour; its counters are those of the entry under exactly that name in the
  record stored for the user and date, and zero when the record has no such entry, when no
  record is stored for the date, or when the read of the record fails. On a store whose
  catalog documents hold the sum of their targets, which every writer of the catalog
  maintains, the snapshot's total target is the sum of the catalog's targets and of the
  snapshot's own, whatever \<open>totalTarget\<close> the record stores.
\<close>

theorem load_merges_catalog_and_record:
  assumes user: "currentUser st = Some uid"
    and catalog: "fetchUserProgress clk fs uid = (Inr (Some up), fs1)"
    and sums: "catalogSums fs"
  shows "length (subjectProgress (fst (loadUserDataForDate clk fs st d))) = length (UserProgress.subjects up)
   \<and> (\<forall>j < length (UserProgress.subjects up).
         subjectProgress (fst (loadUserDataForDate clk fs st d)) ! j =
           (case (case (if nextFails fs1 then None
                        else map_of (dailyHistory_docs fs) (dailyDocId uid d)) of
                    None \<Rightarrow> None
                  | Some r \<Rightarrow> map_of (DailyProgressData.subjects r) (name (UserProgress.subjects up ! j))) of
              Some e \<Rightarrow> (UserProgress.subjects up ! j)
                          \<lparr>correct := SubjectCounts.correct e, wrong := SubjectCounts.wrong e,
                           empty := SubjectCounts.empty e\<rparr>
            | None \<Rightarrow> (UserProgress.subjects up ! j)\<lparr>correct := 0, wrong := 0, empty := 0\<rparr>))
   \<and> StudyTracker.totalTarget (fst (loadUserDataForDate clk fs st d))
       = (\<Sum>s\<leftarrow>subjectProgress (fst (loadUserDataForDate clk fs st d)). target s)
   \<and> StudyTracker.totalTarget (fst (loadUserDataForDate clk fs st d))
       = (\<Sum>c\<leftarrow>UserProgress.subjects up. target c)"
proof -
  let ?dp = "if nextFails fs1 then None else map_of (dailyHistory_docs fs) (dailyDocId uid d)"
  note snap = load_read[OF user catalog]
  have t: "(\<Sum>s\<leftarrow>finalSubjects up ?dp. target s) = (\<Sum>c\<leftarrow>UserProgress.subjects up. target c)"
    using finalSubjects_targets[of up ?dp] by metis
  have c: "UserProgress.totalTarget up = (\<Sum>c\<leftarrow>UserProgress.subjects up. target c)"
    using fetched_catalog_sums[OF sums catalog] by (simp add: sumTargets_sum_list)
  have 1: "length (subjectProgress (fst (loadUserDataForDate clk fs st d))) = length (UserProgress.subjects up)"
    by (simp add: snap finalSubjects_length)
  have 2: "\<forall>j < length (UserProgress.subjects up).
         subjectProgress (fst (loadUserDataForDate clk fs st d)) ! j =
           (case (case ?dp of
                    None \<Rightarrow> None
                  | Some r \<Rightarrow> map_of (DailyProgressData.subjects r) (name (UserProgress.subjects up ! j))) of
              Some e \<Rightarrow> (UserProgress.subjects up ! j)
                          \<lparr>correct := SubjectCounts.correct e, wrong := SubjectCounts.wrong e,
                           empty := SubjectCounts.empty e\<rparr>
            | None \<Rightarrow> (UserProgress.subjects up ! j)\<lparr>correct := 0, wrong := 0, empty := 0\<rparr>)"
    unfolding snap using finalSubjects_nth[of _ up ?dp] by blast
  have 3: "StudyTracker.totalTarget (fst (loadUserDataForDate clk fs st d))
       = (\<Sum>s\<leftarrow>subjectProgress (fst (loadUserDataForDate clk fs st d)). target s)"
    unfolding snap t by (rule c)
  have 4: "StudyTracker.totalTarget (fst (loadUserDataForDate clk fs st d))
       = (\<Sum>c\<leftarrow>UserProgress.subjects up. target c)"
    unfolding snap by (rule c)
  from 1 2 3 4 show ?thesis
    by (intro conjI)
qed

theorem load_merges_catalog_and_record_witness:
  "currentUser mathOnly = Some ''u1''
   \<and> fst (fetchUserProgress exampleClock exampleStore ''u1'') = Inr (Some mathCatalog)
   \<and> catalogSums exampleStore
   \<and> \<not> nextFails (snd (fetchUserProgress exampleClock exampleStore ''u1''))
   \<and> map_of (dailyHistory_docs exampleStore) (dailyDocId ''u1'' ''2024-01-15'') = Some mathRecord
   \<and> length (subjectProgress (fst (loadUserDataForDate exampleClock exampleStore mathOnly ''2024-01-15''))) = 2
   \<and> subjectProgress (fst (loadUserDataForDate exampleClock exampleStore mathOnly ''2024-01-15'')) ! 0
       = \<lparr> name = ''Matematik'', icon = [], correct = 5, wrong = 2, empty = 0, target = 15,
           color = ''bg-blue-500'' \<rparr>
   \<and> subjectProgress (fst (loadUserDataForDate exampleClock exampleStore mathOnly ''2024-01-15'')) ! 1
       = \<lparr> name = ''Fen Bilimleri'', icon = [], correct = 0, wrong = 0, empty = 0, target = 12,
           color = ''bg-purple-500'' \<rparr>
   \<and> StudyTracker.totalTarget (fst (loadUserDataForDate exampleClock exampleStore mathOnly ''2024-01-15'')) = 27
   \<and> (\<Sum>s\<leftarrow>subjectProgress (fst (loadUserDataForDate exampleClock exampleStore mathOnly ''2024-01-15'')).
         target s) = 27
   \<and> DailyProgressData.totalTarget mathRecord = Some 99"
proof -
  let ?fs1 = "snd (fetchUserProgress exampleClock exampleStore ''u1'')"
  let ?st' = "fst (loadUserDataForDate exampleClock exampleStore mathOnly ''2024-01-15'')"
  have u: "currentUser mathOnly = Some ''u1''"
    by (simp add: mathOnly_def)
  have fc: "fst (fetchUserProgress exampleClock exampleStore ''u1'') = Inr (Some mathCatalog)"
    by (simp add: fetchUserProgress_def getUserProgress_def issue_def exampleStore_def)
  have c: "fetchUserProgress exampleClock exampleStore ''u1'' = (Inr (Some mathCatalog), ?fs1)"
    using fc by (metis prod.collapse)
  have s: "catalogSums exampleStore"
    by (simp add: catalogSums_def exampleStore_def mathCatalog_def sumTargets_def)
  have nf: "\<not> nextFails ?fs1"
    by (simp add: nextFails_def fetchUserProgress_def getUserProgress_def issue_def exampleStore_def)
  have r: "map_of (dailyHistory_docs exampleStore) (dailyDocId ''u1'' ''2024-01-15'') = Some mathRecord"
    by (simp add: exampleStore_def dailyDocId_def)
  have rt: "DailyProgressData.totalTarget mathRecord = Some 99"
    by (simp add: mathRecord_def)
  note main = load_merges_catalog_and_record[OF u c s, of "''2024-01-15''"]
  from main have len: "length (subjectProgress ?st') = 2"
    by (simp add: mathCatalog_def)
  from main[THEN conjunct2, THEN conjunct1, rule_format, of 0] nf r
  have n0: "subjectProgress ?st' ! 0
      = \<lparr> name = ''Matematik'', icon = [], correct = 5, wrong = 2, empty = 0, target = 15,
          color = ''bg-blue-500'' \<rparr>"
    by (simp add: mathCatalog_def mathRecord_def)
  from main[THEN conjunct2, THEN conjunct1, rule_format, of 1] nf r
  have n1: "subjectProgress ?st' ! 1
      = \<lparr> name = ''Fen Bilimleri'', icon = [], correct = 0, wrong = 0, empty = 0, target = 12,
          color = ''bg-purple-500'' \<rparr>"
    by (simp add: mathCatalog_def mathRecord_def)
  from main[THEN conjunct2, THEN conjunct2, THEN conjunct2]
  have tt: "StudyTracker.totalTarget ?st' = 27"
    by (simp add: mathCatalog_def)
  from main[THEN conjunct2, THEN conjunct2, THEN conjunct1] tt
  have ts: "(\<Sum>s\<leftarrow>subjectProgress ?st'. target s) = 27"
    by simp
  from u fc s nf r len n0 n1 tt ts rt show ?thesis
    by (intro conjI)
qed

text \<open>
  C4 as stated fails when the read of the record fails: \<open>getDailyProgressForDate\<close> reports a
  failed read as no record, so a snapshot loaded from a store that holds 5 correct and 2
  wrong answers for Matematik on that date shows zeros.
\<close>

theorem load_failed_read_counterexample:
  "map_of (dailyHistory_docs failedReadStore) (dailyDocId ''u1'' ''2024-01-15'') = Some mathRecord
   \<and> map_of (DailyProgressData.subjects mathRecord) ''Matematik''
       = Some \<lparr> SubjectCounts.correct = 5, SubjectCounts.wrong = 2, SubjectCounts.empty = 0,
                SubjectCounts.total = 7 \<rparr>
   \<and> subjectProgress (fst (loadUserDataForDate exampleClock failedReadStore mathOnly ''2024-01-15'')) ! 0
       = \<lparr> name = ''Matematik'', icon = [], correct = 0, wrong = 0, empty = 0, target = 15,
           color = ''bg-blue-500'' \<rparr>"
  by (simp add: loadUserDataForDate_def fetchUserProgress_def getUserProgress_def issue_def
        failedReadStore_def exampleStore_def mathOnly_def mathCatalog_def mathRecord_def
        getDailyProgressForDate_def dailyDocId_def getUserDailyHistory_def queryDailyHistory_def
        finalSubjects_def sumQuestions_def Let_def)

section \<open>The overall question count\<close>

lemma updateTarget_counters:
  assumes "updateTarget st i newTarget = Inr st'"
  shows "totalQuestions st' = totalQuestions st"
    and "map (\<lambda>s. correct s + wrong s + empty s) (subjectProgress st')
           = map (\<lambda>s. correct s + wrong s + empty s) (subjectProgress st)"
  using assms
  by (auto simp: updateTarget_def Let_def map_update list_update_same_conv split: if_splits)

lemma saveProgress_state:
  "totalQuestions (fst (saveProgress clk fs st)) = totalQuestions st"
  "subjectProgress (fst (saveProgress clk fs st)) = subjectProgress st"
  by (auto simp: saveProgress_def split: option.splits prod.splits)

text \<open>
  C10. Every successful \<open>updateQuestions\<close> leaves \<open>totalQuestions\<close> equal to the sum of
  \<open>correct + wrong + empty\<close> over the snapshot, and so does every load that fetched a
  catalog; a load that did not get that far leaves both the snapshot and the count as they
  were. The other operations on the state, \<open>updateTarget\<close> and the body of
  \<open>saveProgress\<close>, change neither the count nor any subject's counters.
\<close>

theorem total_questions_invariant:
  "(\<forall>st' fs'. updateQuestions clk fs st i ty d = Inr (st', fs')
       \<longrightarrow> totalQuestions st' = (\<Sum>s\<leftarrow>subjectProgress st'. correct s + wrong s + empty s))
   \<and> (\<forall>uid up fs1. currentUser st = Some uid \<and> fetchUserProgress clk fs uid = (Inr (Some up), fs1)
       \<longrightarrow> totalQuestions (fst (loadUserDataForDate clk fs st dateString))
           = (\<Sum>s\<leftarrow>subjectProgress (fst (loadUserDataForDate clk fs st dateString)).
                correct s + wrong s + empty s))
   \<and> (totalQuestions (fst (loadUserDataForDate clk fs st dateString))
         = (\<Sum>s\<leftarrow>subjectProgress (fst (loadUserDataForDate clk fs st dateString)).
              correct s + wrong s + empty s)
       \<or> (subjectProgress (fst (loadUserDataForDate clk fs st dateString)) = subjectProgress st
           \<and> totalQuestions (fst (loadUserDataForDate clk fs st dateString)) = totalQuestions st))
   \<and> (\<forall>st'. updateTarget st i newTarget = Inr st'
       \<longrightarrow> totalQuestions st' = totalQuestions st
         \<and> map (\<lambda>s. correct s + wrong s + empty s) (subjectProgress st')
             = map (\<lambda>s. correct s + wrong s + empty s) (subjectProgress st))
   \<and> totalQuestions (fst (saveProgress clk fs st)) = totalQuestions st
   \<and> subjectProgress (fst (saveProgress clk fs st)) = subjectProgress st"
proof (intro conjI allI impI)
  fix st' fs'
  assume "updateQuestions clk fs st i ty d = Inr (st', fs')"
  then show "totalQuestions st' = (\<Sum>s\<leftarrow>subjectProgress st'. correct s + wrong s + empty s)"
    using updateQuestions_total sumQuestions_sum_list by metis
next
  fix uid up fs1
  assume a: "currentUser st = Some uid \<and> fetchUserProgress clk fs uid = (Inr (Some up), fs1)"
  obtain dp where "fst (getDailyProgressForDate fs1 uid dateString) = Inr dp"
    using getDaily_Inr by blast
  then have r: "getDailyProgressForDate fs1 uid dateString
      = (Inr dp, snd (getDailyProgressForDate fs1 uid dateString))"
    by (metis prod.collapse)
  from a have u: "currentUser st = Some uid"
    and c: "fetchUserProgress clk fs uid = (Inr (Some up), fs1)"
    by simp_all
  show "totalQuestions (fst (loadUserDataForDate clk fs st dateString))
      = (\<Sum>s\<leftarrow>subjectProgress (fst (loadUserDataForDate clk fs st dateString)).
           correct s + wrong s + empty s)"
    using load_snapshot[OF u c r] by (simp add: sumQuestions_sum_list)
next
  show "totalQuestions (fst (loadUserDataForDate clk fs st dateString))
         = (\<Sum>s\<leftarrow>subjectProgress (fst (loadUserDataForDate clk fs st dateString)).
              correct s + wrong s + empty s)
       \<or> (subjectProgress (fst (loadUserDataForDate clk fs st dateString)) = subjectProgress st
           \<and> totalQuestions (fst (loadUserDataForDate clk fs st dateString)) = totalQuestions st)"
    using load_total[of clk fs st dateString] by (simp add: sumQuestions_sum_list)
next
  fix st'
  assume t: "updateTarget st i newTarget = Inr st'"
  show "totalQuestions st' = totalQuestions st"
    by (rule updateTarget_counters(1)[OF t])
  show "map (\<lambda>s. correct s + wrong s + empty s) (subjectProgress st')
      = map (\<lambda>s. correct s + wrong s + empty s) (subjectProgress st)"
    by (rule updateTarget_counters(2)[OF t])
next
  show "totalQuestions (fst (saveProgress clk fs st)) = totalQuestions st"
    by (rule saveProgress_state(1))
next
  show "subjectProgress (fst (saveProgress clk fs st)) = subjectProgress st"
    by (rule saveProgress_state(2))
qed

theorem total_questions_invariant_witness:
  "(\<exists>st' fs'. updateQuestions exampleClock emptyStore mathOnly 0 Wrong 1 = Inr (st', fs')
       \<and> totalQuestions st' = (\<Sum>s\<leftarrow>subjectProgress st'. correct s + wrong s + empty s))
   \<and> currentUser mathOnly = Some ''u1''
   \<and> fst (fetchUserProgress exampleClock exampleStore ''u1'') = Inr (Some mathCatalog)
   \<and> totalQuestions (fst (loadUserDataForDate exampleClock exampleStore mathOnly ''2024-01-15''))
       = (\<Sum>s\<leftarrow>subjectProgress (fst (loadUserDataForDate exampleClock exampleStore mathOnly ''2024-01-15'')).
            correct s + wrong s + empty s)
   \<and> (\<exists>st'. updateTarget mathOnly 0 1 = Inr st' \<and> totalQuestions st' = totalQuestions mathOnly)"
proof -
  note inv = total_questions_invariant[of exampleClock _ mathOnly 0 Wrong 1 "''2024-01-15''" 1]
  obtain st' fs' where run: "updateQuestions exampleClock emptyStore mathOnly 0 Wrong 1 = Inr (st', fs')"
    using updateQuestions_counter[of 0 mathOnly exampleClock emptyStore Wrong 1]
    by (auto simp: mathOnly_def)
  from inv[of emptyStore, THEN conjunct1, rule_format, OF run]
  have 1: "totalQuestions st' = (\<Sum>s\<leftarrow>subjectProgress st'. correct s + wrong s + empty s)" .
  have u: "currentUser mathOnly = Some ''u1''"
    by (simp add: mathOnly_def)
  have fc: "fst (fetchUserProgress exampleClock exampleStore ''u1'') = Inr (Some mathCatalog)"
    by (simp add: fetchUserProgress_def getUserProgress_def issue_def exampleStore_def)
  then have c: "fetchUserProgress exampleClock exampleStore ''u1''
      = (Inr (Some mathCatalog), snd (fetchUserProgress exampleClock exampleStore ''u1''))"
    by (metis prod.collapse)
  from inv[of exampleStore, THEN conjunct2, THEN conjunct1, rule_format, OF conjI[OF u c]]
  have 2: "totalQuestions (fst (loadUserDataForDate exampleClock exampleStore mathOnly ''2024-01-15''))
       = (\<Sum>s\<leftarrow>subjectProgress (fst (loadUserDataForDate exampleClock exampleStore mathOnly ''2024-01-15'')).
            correct s + wrong s + empty s)" .
  obtain st2 where t: "updateTarget mathOnly 0 1 = Inr st2"
    by (simp add: updateTarget_def mathOnly_def Let_def)
  from inv[of emptyStore, THEN conjunct2, THEN conjunct2, THEN conjunct2, THEN conjunct1,
      rule_format, OF t]
  have 3: "totalQuestions st2 = totalQuestions mathOnly"
    by (rule conjunct1)
  from run 1 have 4: "\<exists>st' fs'. updateQuestions exampleClock emptyStore mathOnly 0 Wrong 1 = Inr (st', fs')
       \<and> totalQuestions st' = (\<Sum>s\<leftarrow>subjectProgress st'. correct s + wrong s + empty s)"
    by (intro exI conjI)
  from t 3 have 5: "\<exists>st'. updateTarget mathOnly 0 1 = Inr st' \<and> totalQuestions st' = totalQuestions mathOnly"
    by (intro exI conjI)
  from 4 u fc 2 5 show ?thesis
    by (intro conjI)
qed

section \<open>Completion percentage\<close>

text \<open>
  C8, as amended. For a subject whose target is not zero the percentage is
  \<open>min(100, 100 * (correct + wrong + empty) / target)\<close>, in exact arithmetic. The targets
  the program itself produces are never zero: \<open>updateTarget\<close> stores at least 1, and the
  default targets are all at least 1.
\<close>

theorem percentage_formula:
  "(target subject \<noteq> 0
      \<longrightarrow> getProgressPercentage subject =
          Finite (min 100 (100 * real_of_int (correct subject + wrong subject + empty subject)
                             / real_of_int (target subject))))
   \<and> (\<forall>st'. updateTarget st i newTarget = Inr st' \<longrightarrow> 1 \<le> target (subjectProgress st' ! i))
   \<and> (\<forall>s\<in>set defaultSubjects. 1 \<le> target s)"
proof (intro conjI impI allI ballI)
  assume nz: "target subject \<noteq> 0"
  let ?x = "real_of_int (correct subject + wrong subject + empty subject)"
  let ?t = "real_of_int (target subject)"
  have "divide_js (correct subject + wrong subject + empty subject) (target subject) = Finite (?x / ?t)"
    using nz by (simp only: divide_js_def if_True not_False_eq_True)
  then have "getProgressPercentage subject = Finite (min (?x / ?t * 100) 100)"
    by (simp only: getProgressPercentage_def Let_def times_js.simps Math_min.simps)
  moreover have "min (?x / ?t * 100) 100 = min 100 (100 * ?x / ?t)"
    by (simp only: min.commute mult.commute times_divide_eq_right)
  ultimately show "getProgressPercentage subject = Finite (min 100 (100 * ?x / ?t))"
    by (simp only:)
next
  fix st'
  assume "updateTarget st i newTarget = Inr st'"
  then show "1 \<le> target (subjectProgress st' ! i)"
    by (auto simp: updateTarget_def Let_def split: if_splits)
next
  fix s
  assume "s \<in> set defaultSubjects"
  then show "1 \<le> target s"
    by (auto simp: defaultSubjects_def)
qed

theorem percentage_formula_witness:
  "target (hd (subjectProgress mathOnly)) \<noteq> 0
   \<and> getProgressPercentage (hd (subjectProgress mathOnly)) = Finite (100 / 3)
   \<and> updateTarget mathOnly 0 0 = Inr (mathOnly\<lparr>subjectProgress :=
          [\<lparr> name = ''Matematik'', icon = [], correct = 5, wrong = 0, empty = 0, target = 1,
             color = ''bg-blue-500'' \<rparr>], totalTarget := 1\<rparr>)
   \<and> 1 \<le> target (subjectProgress (projr (updateTarget mathOnly 0 0)) ! 0)
   \<and> hd defaultSubjects \<in> set defaultSubjects
   \<and> 1 \<le> target (hd defaultSubjects)"
proof -
  note main = percentage_formula[of "hd (subjectProgress mathOnly)" mathOnly 0 0]
  have nz: "target (hd (subjectProgress mathOnly)) \<noteq> 0"
    by (simp add: mathOnly_def)
  from main[THEN conjunct1, THEN mp, OF nz]
  have p: "getProgressPercentage (hd (subjectProgress mathOnly)) = Finite (100 / 3)"
    by (simp add: mathOnly_def)
  have u: "updateTarget mathOnly 0 0 = Inr (mathOnly\<lparr>subjectProgress :=
          [\<lparr> name = ''Matematik'', icon = [], correct = 5, wrong = 0, empty = 0, target = 1,
             color = ''bg-blue-500'' \<rparr>], totalTarget := 1\<rparr>)"
    by (simp add: updateTarget_def mathOnly_def Let_def sumTargets_def)
  from main[THEN conjunct2, THEN conjunct1, rule_format, OF u]
  have t: "1 \<le> target (subjectProgress (projr (updateTarget mathOnly 0 0)) ! 0)"
    by (simp add: u)
  have m: "hd defaultSubjects \<in> set defaultSubjects"
    by (simp add: defaultSubjects_def)
  from main[THEN conjunct2, THEN conjunct2, rule_format, OF m]
  have d: "1 \<le> target (hd defaultSubjects)" .
  from nz p u t m d show ?thesis
    by (intro conjI)
qed

text \<open>
  C8 as stated fails at \<open>target = 0\<close>: \<open>getProgressPercentage\<close> has no guard, the division
  gives \<open>Infinity\<close> and the result is 100 (and \<open>NaN\<close> when the counters are all zero), not 0.
\<close>

theorem percentage_zero_target_counterexample:
  "target zeroTarget = 0
   \<and> getProgressPercentage zeroTarget = Finite 100
   \<and> getProgressPercentage zeroTarget \<noteq> Finite 0
   \<and> getProgressPercentage (zeroTarget\<lparr>correct := 0, wrong := 0\<rparr>) = NaN"
  by (simp add: getProgressPercentage_def divide_js_def zeroTarget_def)

section \<open>Rollups\<close>

lemma seedStats_snoc:
  "seedStats (subjs @ [subject]) = (seedStats subjs)(name subject \<mapsto> ownCounts subject)"
  by (simp add: seedStats_def ownCounts_def)

lemma seedStats_Nil: "seedStats [] = Map.empty"
  by (simp add: seedStats_def)

lemma seedStats_dom: "dom (seedStats subjs) = name ` set subjs"
proof (induction subjs rule: rev_induct)
  case Nil
  show ?case by (simp add: seedStats_Nil)
next
  case (snoc x xs)
  then show ?case by (simp only: seedStats_snoc dom_fun_upd) auto
qed

lemma seedStats_member:
  "distinct (map name subjs) \<Longrightarrow> s \<in> set subjs \<Longrightarrow> seedStats subjs (name s) = Some (ownCounts s)"
proof (induction subjs rule: rev_induct)
  case Nil
  then show ?case by simp
next
  case (snoc x xs)
  show ?case
  proof (cases "s = x")
    case True
    then show ?thesis by (simp only: seedStats_snoc fun_upd_same)
  next
    case False
    with snoc.prems have mem: "s \<in> set xs" and d: "distinct (map name xs)"
      and nx: "name x \<notin> name ` set xs" by auto
    from mem nx have ne: "name s \<noteq> name x" by (metis imageI)
    from snoc.IH[OF d mem] ne show ?thesis
      by (simp add: seedStats_snoc)
  qed
qed

lemma addEntry_apply:
  "addEntry stats (k, data) n =
     (if n = k then map_option (\<lambda>s. addCounts s data) (stats k) else stats n)"
  by (auto simp: addEntry_def addCounts_def split: option.splits)

lemma addCounts_zero:
  "addCounts s \<lparr> SubjectCounts.correct = 0, SubjectCounts.wrong = 0, SubjectCounts.empty = 0,
                 SubjectCounts.total = 0 \<rparr> = s"
  by (simp add: addCounts_def)

lemma foldl_addEntry:
  "distinct (map fst entries)
     \<Longrightarrow> foldl addEntry stats entries n =
         map_option (\<lambda>s. addCounts s
            (case map_of entries n of
               Some data \<Rightarrow> data
             | None \<Rightarrow> \<lparr> SubjectCounts.correct = 0, SubjectCounts.wrong = 0,
                         SubjectCounts.empty = 0, SubjectCounts.total = 0 \<rparr>)) (stats n)"
proof (induction entries arbitrary: stats)
  case Nil
  show ?case by (cases "stats n") (simp_all add: addCounts_zero)
next
  case (Cons e es)
  obtain k data where e: "e = (k, data)" by (cases e)
  let ?st1 = "addEntry stats (k, data)"
  from Cons.prems e have d: "distinct (map fst es)" and k: "k \<notin> fst ` set es" by auto
  from k have none: "map_of es k = None" by (simp add: map_of_eq_None_iff)
  have step: "foldl addEntry stats (e # es) n = foldl addEntry ?st1 es n"
    by (simp only: e foldl_Cons)
  have ih: "foldl addEntry ?st1 es n =
      map_option (\<lambda>s. addCounts s
        (case map_of es n of
           Some data \<Rightarrow> data
         | None \<Rightarrow> \<lparr> SubjectCounts.correct = 0, SubjectCounts.wrong = 0,
                     SubjectCounts.empty = 0, SubjectCounts.total = 0 \<rparr>)) (?st1 n)"
    by (rule Cons.IH[OF d])
  have st1: "?st1 n = (if n = k then map_option (\<lambda>s. addCounts s data) (stats k) else stats n)"
    by (rule addEntry_apply)
  show ?case
  proof (cases "n = k")
    case True
    have "foldl addEntry ?st1 es n = map_option (\<lambda>s. addCounts s data) (stats k)"
      unfolding ih st1 using True none by (cases "stats k") (simp_all add: addCounts_zero)
    with True e step show ?thesis by simp
  next
    case False
    have "foldl addEntry ?st1 es n =
      map_option (\<lambda>s. addCounts s
        (case map_of es n of
           Some data \<Rightarrow> data
         | None \<Rightarrow> \<lparr> SubjectCounts.correct = 0, SubjectCounts.wrong = 0,
                     SubjectCounts.empty = 0, SubjectCounts.total = 0 \<rparr>)) (stats n)"
      unfolding ih st1 using False by simp
    with False e step show ?thesis by simp
  qed
qed

lemma addDay_apply:
  "distinct (map fst (DailyProgressData.subjects day))
     \<Longrightarrow> addDay stats day n = map_option (\<lambda>s. addCounts s (recordCounts day n)) (stats n)"
  unfolding addDay_def recordCounts_def by (rule foldl_addEntry)

lemma foldl_addDay:
  "\<forall>day\<in>set days. distinct (map fst (DailyProgressData.subjects day))
     \<Longrightarrow> foldl addDay stats days n =
         map_option (\<lambda>s. foldl addCounts s (map (\<lambda>day. recordCounts day n) days)) (stats n)"
proof (induction days arbitrary: stats)
  case Nil
  show ?case by (cases "stats n") simp_all
next
  case (Cons day days)
  then have 1: "distinct (map fst (DailyProgressData.subjects day))"
    and 2: "\<forall>day\<in>set days. distinct (map fst (DailyProgressData.subjects day))" by auto
  show ?case
    using Cons.IH[OF 2, of "addDay stats day"] addDay_apply[OF 1, of stats n]
    by (cases "stats n") simp_all
qed

lemma foldl_addCounts_fields:
  "SubjectCounts.correct (foldl addCounts s xs) = SubjectCounts.correct s + (\<Sum>x\<leftarrow>xs. SubjectCounts.correct x)"
  "SubjectCounts.wrong (foldl addCounts s xs) = SubjectCounts.wrong s + (\<Sum>x\<leftarrow>xs. SubjectCounts.wrong x)"
  "SubjectCounts.empty (foldl addCounts s xs) = SubjectCounts.empty s + (\<Sum>x\<leftarrow>xs. SubjectCounts.empty x)"
  "SubjectCounts.total (foldl addCounts s xs) = SubjectCounts.total s + (\<Sum>x\<leftarrow>xs. SubjectCounts.total x)"
  by (induction xs arbitrary: s) (simp_all add: addCounts_def)

lemma snapshotSubject_distinct:
  "distinct (map name subjs) \<Longrightarrow> s \<in> set subjs \<Longrightarrow> snapshotSubject subjs (name s) = s"
proof (induction subjs rule: rev_induct)
  case Nil
  then show ?case by simp
next
  case (snoc x xs)
  show ?case
  proof (cases "name x = name s")
    case True
    with snoc.prems have "s = x"
      by (auto simp: image_iff)
    then show ?thesis by (simp add: snapshotSubject_def)
  next
    case False
    with snoc.prems have "s \<in> set xs" and "distinct (map name xs)" by auto
    from snoc.IH[OF this(2,1)] False show ?thesis by (simp add: snapshotSubject_def)
  qed
qed

lemma seedStats_last:
  "s \<in> set subjs \<Longrightarrow> seedStats subjs (name s) = Some (ownCounts (snapshotSubject subjs (name s)))"
proof (induction subjs rule: rev_induct)
  case Nil
  then show ?case by simp
next
  case (snoc x xs)
  show ?case
  proof (cases "name x = name s")
    case True
    then show ?thesis by (simp add: seedStats_snoc snapshotSubject_def)
  next
    case False
    with snoc.prems have "s \<in> set xs" by auto
    from snoc.IH[OF this] False show ?thesis by (simp add: seedStats_snoc snapshotSubject_def)
  qed
qed

lemma rollup_member:
  assumes "\<forall>day\<in>set days. distinct (map fst (DailyProgressData.subjects day))"
    and "s \<in> set subjs"
  shows "foldl addDay (seedStats subjs) days (name s) =
     Some (foldl addCounts (ownCounts (snapshotSubject subjs (name s)))
             (map (\<lambda>day. recordCounts day (name s)) days))"
  using foldl_addDay[OF assms(1), of "seedStats subjs" "name s"] seedStats_last[OF assms(2)]
  by simp

lemma addEntry_dom: "dom (addEntry stats e) = dom stats"
  by (cases e) (auto simp: addEntry_def split: option.splits)

lemma foldl_addEntry_dom: "dom (foldl addEntry stats es) = dom stats"
proof (induction es arbitrary: stats)
  case Nil
  show ?case by simp
next
  case (Cons e es)
  have "dom (foldl addEntry stats (e # es)) = dom (foldl addEntry (addEntry stats e) es)"
    by (simp only: foldl_Cons)
  also have "\<dots> = dom (addEntry stats e)" by (rule Cons.IH)
  also have "\<dots> = dom stats" by (rule addEntry_dom)
  finally show ?case .
qed

lemma rollup_dom: "dom (foldl addDay stats days) = dom stats"
proof (induction days arbitrary: stats)
  case Nil
  show ?case by simp
next
  case (Cons day days)
  have "dom (foldl addDay stats (day # days)) = dom (foldl addDay (addDay stats day) days)"
    by (simp only: foldl_Cons)
  also have "\<dots> = dom (addDay stats day)" by (rule Cons.IH)
  also have "\<dots> = dom stats" unfolding addDay_def by (rule foldl_addEntry_dom)
  finally show ?case .
qed

text \<open>
  C1. Let every history record's \<open>subjects\<close> object have distinct keys (as every
  JavaScript object has). Then the all-time rollup maps each snapshot subject's name to the
  snapshot's counts for that name plus, field by field, the sum over all history records of
  what the record holds for that name, a record without the name adding zero. The snapshot's
  counts for a name are those of its subject of that name, which is the subject itself when
  the names are pairwise distinct. The table's keys are exactly the snapshot's subject names,
  so a history entry for another name creates nothing; and with an empty history the table
  holds the snapshot's own counts.
\<close>

theorem rollup_all_time:
  assumes keys: "\<forall>day\<in>set (dailyHistory st). distinct (map fst (DailyProgressData.subjects day))"
  shows "(\<forall>s\<in>set (subjectProgress st). \<exists>r.
            calculateAllTimeStats st (name s) = Some r
          \<and> SubjectCounts.correct r
              = correct (snapshotSubject (subjectProgress st) (name s))
                + (\<Sum>day\<leftarrow>dailyHistory st. SubjectCounts.correct (recordCounts day (name s)))
          \<and> SubjectCounts.wrong r
              = wrong (snapshotSubject (subjectProgress st) (name s))
                + (\<Sum>day\<leftarrow>dailyHistory st. SubjectCounts.wrong (recordCounts day (name s)))
          \<and> SubjectCounts.empty r
              = empty (snapshotSubject (subjectProgress st) (name s))
                + (\<Sum>day\<leftarrow>dailyHistory st. SubjectCounts.empty (recordCounts day (name s)))
          \<and> SubjectCounts.total r
              = correct (snapshotSubject (subjectProgress st) (name s))
                + wrong (snapshotSubject (subjectProgress st) (name s))
                + empty (snapshotSubject (subjectProgress st) (name s))
                + (\<Sum>day\<leftarrow>dailyHistory st. SubjectCounts.total (recordCounts day (name s))))
       \<and> (distinct (map name (subjectProgress st))
            \<longrightarrow> (\<forall>s\<in>set (subjectProgress st). snapshotSubject (subjectProgress st) (name s) = s))
       \<and> dom (calculateAllTimeStats st) = name ` set (subjectProgress st)
       \<and> (dailyHistory st = []
            \<longrightarrow> (\<forall>s\<in>set (subjectProgress st).
                  calculateAllTimeStats st (name s)
                    = Some (ownCounts (snapshotSubject (subjectProgress st) (name s)))))"
proof (intro conjI ballI impI)
  fix s
  assume s: "s \<in> set (subjectProgress st)"
  let ?own = "snapshotSubject (subjectProgress st) (name s)"
  let ?r = "foldl addCounts (ownCounts ?own) (map (\<lambda>day. recordCounts day (name s)) (dailyHistory st))"
  have "calculateAllTimeStats st (name s) = Some ?r"
    unfolding calculateAllTimeStats_def by (rule rollup_member[OF keys s])
  then show "\<exists>r. calculateAllTimeStats st (name s) = Some r
          \<and> SubjectCounts.correct r
              = correct ?own + (\<Sum>day\<leftarrow>dailyHistory st. SubjectCounts.correct (recordCounts day (name s)))
          \<and> SubjectCounts.wrong r
              = wrong ?own + (\<Sum>day\<leftarrow>dailyHistory st. SubjectCounts.wrong (recordCounts day (name s)))
          \<and> SubjectCounts.empty r
              = empty ?own + (\<Sum>day\<leftarrow>dailyHistory st. SubjectCounts.empty (recordCounts day (name s)))
          \<and> SubjectCounts.total r
              = correct ?own + wrong ?own + empty ?own
                + (\<Sum>day\<leftarrow>dailyHistory st. SubjectCounts.total (recordCounts day (name s)))"
    by (simp add: foldl_addCounts_fields ownCounts_def comp_def)
next
  fix s
  assume "distinct (map name (subjectProgress st))" and "s \<in> set (subjectProgress st)"
  then show "snapshotSubject (subjectProgress st) (name s) = s"
    by (rule snapshotSubject_distinct)
next
  show "dom (calculateAllTimeStats st) = name ` set (subjectProgress st)"
    unfolding calculateAllTimeStats_def by (simp only: rollup_dom seedStats_dom)
next
  fix s
  assume "dailyHistory st = []" and "s \<in> set (subjectProgress st)"
  then show "calculateAllTimeStats st (name s)
      = Some (ownCounts (snapshotSubject (subjectProgress st) (name s)))"
    unfolding calculateAllTimeStats_def using seedStats_last by simp
qed

theorem rollup_all_time_witness:
  "distinct (map fst (DailyProgressData.subjects (mathDay ''2024-01-12'' 1)))
   \<and> distinct (map name (subjectProgress weekTracker))
   \<and> hd (subjectProgress weekTracker) \<in> set (subjectProgress weekTracker)
   \<and> name (hd (subjectProgress weekTracker)) = ''Matematik''
   \<and> snapshotSubject (subjectProgress weekTracker) ''Matematik'' = hd (subjectProgress weekTracker)
   \<and> (\<exists>r. calculateAllTimeStats weekTracker ''Matematik'' = Some r
        \<and> SubjectCounts.correct r = 1116 \<and> SubjectCounts.wrong r = 0
        \<and> SubjectCounts.empty r = 0 \<and> SubjectCounts.total r = 1116)
   \<and> ''Kimya'' \<notin> dom (calculateAllTimeStats weekTracker)
   \<and> dailyHistory mathOnly = []
   \<and> calculateAllTimeStats mathOnly ''Matematik''
       = Some \<lparr> SubjectCounts.correct = 5, SubjectCounts.wrong = 0, SubjectCounts.empty = 0,
                SubjectCounts.total = 5 \<rparr>"
proof -
  let ?m = "hd (subjectProgress weekTracker)"
  have n: "distinct (map name (subjectProgress weekTracker))"
    by (simp add: weekTracker_def mathOnly_def)
  have k: "\<forall>day\<in>set (dailyHistory weekTracker). distinct (map fst (DailyProgressData.subjects day))"
    by (simp add: weekTracker_def mathDay_def)
  have k1: "distinct (map fst (DailyProgressData.subjects (mathDay ''2024-01-12'' 1)))"
    by (simp add: mathDay_def)
  have m: "?m \<in> set (subjectProgress weekTracker)"
    by (simp add: weekTracker_def mathOnly_def)
  have nm: "name ?m = ''Matematik''"
    by (simp add: weekTracker_def mathOnly_def)
  note main = rollup_all_time[OF k]
  from main[THEN conjunct2, THEN conjunct1, rule_format, OF n m]
  have own: "snapshotSubject (subjectProgress weekTracker) ''Matematik'' = ?m"
    unfolding nm .
  from main[THEN conjunct1, rule_format, OF m] obtain r where
    r: "calculateAllTimeStats weekTracker (name ?m) = Some r"
    and c: "SubjectCounts.correct r = correct (snapshotSubject (subjectProgress weekTracker) (name ?m))
         + (\<Sum>day\<leftarrow>dailyHistory weekTracker. SubjectCounts.correct (recordCounts day (name ?m)))"
    and w: "SubjectCounts.wrong r = wrong (snapshotSubject (subjectProgress weekTracker) (name ?m))
         + (\<Sum>day\<leftarrow>dailyHistory weekTracker. SubjectCounts.wrong (recordCounts day (name ?m)))"
    and e: "SubjectCounts.empty r = empty (snapshotSubject (subjectProgress weekTracker) (name ?m))
         + (\<Sum>day\<leftarrow>dailyHistory weekTracker. SubjectCounts.empty (recordCounts day (name ?m)))"
    and t: "SubjectCounts.total r = correct (snapshotSubject (subjectProgress weekTracker) (name ?m))
         + wrong (snapshotSubject (subjectProgress weekTracker) (name ?m))
         + empty (snapshotSubject (subjectProgress weekTracker) (name ?m))
         + (\<Sum>day\<leftarrow>dailyHistory weekTracker. SubjectCounts.total (recordCounts day (name ?m)))"
    by blast
  have 1: "\<exists>r. calculateAllTimeStats weekTracker ''Matematik'' = Some r
        \<and> SubjectCounts.correct r = 1116 \<and> SubjectCounts.wrong r = 0
        \<and> SubjectCounts.empty r = 0 \<and> SubjectCounts.total r = 1116"
    using r c w e t unfolding nm own
    by (simp add: weekTracker_def mathOnly_def mathDay_def recordCounts_def)
  have "dom (calculateAllTimeStats weekTracker) = name ` set (subjectProgress weekTracker)"
    by (rule main[THEN conjunct2, THEN conjunct2, THEN conjunct1])
  then have 2: "''Kimya'' \<notin> dom (calculateAllTimeStats weekTracker)"
    by (simp add: weekTracker_def mathOnly_def)
  have k0: "\<forall>day\<in>set (dailyHistory mathOnly). distinct (map fst (DailyProgressData.subjects day))"
    and h0: "dailyHistory mathOnly = []"
    and m0: "hd (subjectProgress mathOnly) \<in> set (subjectProgress mathOnly)"
    by (simp_all add: mathOnly_def)
  from rollup_all_time[OF k0, THEN conjunct2, THEN conjunct2, THEN conjunct2, rule_format, OF h0 m0]
  have 3: "calculateAllTimeStats mathOnly ''Matematik''
       = Some \<lparr> SubjectCounts.correct = 5, SubjectCounts.wrong = 0, SubjectCounts.empty = 0,
                SubjectCounts.total = 5 \<rparr>"
    by (simp add: mathOnly_def ownCounts_def snapshotSubject_def)
  from k1 n m nm own 1 2 h0 3 show ?thesis
    by (intro conjI)
qed

section \<open>The weekly window\<close>

lemma weekAgo_shift: "weekAgo tza now = now - 7 * msPerDay + offsetShift tza now"
  by (simp add: weekAgo_def UTC_def LocalTime_def offsetShift_def)

lemma window_days:
  assumes shift: "\<bar>offsetShift tza now\<bar> < msPerDay"
  shows "now div msPerDay - 5 \<le> k \<Longrightarrow> weekAgo tza now \<le> k * msPerDay"
    and "k \<le> now div msPerDay - 8 \<Longrightarrow> \<not> weekAgo tza now \<le> k * msPerDay"
    and "offsetShift tza now \<le> 0 \<Longrightarrow> now div msPerDay - 6 \<le> k
           \<Longrightarrow> weekAgo tza now \<le> k * msPerDay"
proof -
  define q where "q = now div 86400000"
  define r where "r = now mod 86400000"
  define d where "d = offsetShift tza now"
  have now: "now = q * 86400000 + r" and r: "0 \<le> r" "r < 86400000"
    by (simp_all add: q_def r_def)
  from shift have d: "- 86400000 < d" "d < 86400000"
    by (simp_all add: d_def msPerDay_def)
  have w: "weekAgo tza now = q * 86400000 + r - 7 * 86400000 + d"
    unfolding weekAgo_shift d_def msPerDay_def using now by simp
  have "q - 5 \<le> k \<Longrightarrow> q * 86400000 + r - 7 * 86400000 + d \<le> k * 86400000"
    using r d by simp
  then show "now div msPerDay - 5 \<le> k \<Longrightarrow> weekAgo tza now \<le> k * msPerDay"
    unfolding w by (simp add: msPerDay_def q_def)
  have "k \<le> q - 8 \<Longrightarrow> \<not> q * 86400000 + r - 7 * 86400000 + d \<le> k * 86400000"
    using r d by simp
  then show "k \<le> now div msPerDay - 8 \<Longrightarrow> \<not> weekAgo tza now \<le> k * msPerDay"
    unfolding w by (simp add: msPerDay_def q_def)
  have "d \<le> 0 \<Longrightarrow> q - 6 \<le> k \<Longrightarrow> q * 86400000 + r - 7 * 86400000 + d \<le> k * 86400000"
    using r by simp
  then show "offsetShift tza now \<le> 0 \<Longrightarrow> now div msPerDay - 6 \<le> k
      \<Longrightarrow> weekAgo tza now \<le> k * msPerDay"
    unfolding w by (simp add: msPerDay_def q_def d_def)
qed

text \<open>
  C7, as amended. The weekly rollup adds to the snapshot's counts exactly the history records
  that pass the filter \<open>new Date(day.date) >= weekAgo\<close>. In a time zone whose offset differs
  by less than a day between the current instant and the same local time seven days earlier,
  a record whose date parses to UTC midnight of day \<open>k\<close> passes whenever \<open>k\<close> is at most five
  days before the current UTC day (so a record from 3 days ago contributes), also when it is
  six days before it unless the offset has grown over the week (the clocks were put forward),
  and never when \<open>k\<close> is eight or more days before it (so records from 8 and 10 days ago
  contribute nothing). Nothing is stated for the day seven days before the current UTC day,
  nor for the sixth after the clocks were put forward. A record whose date does not parse
  never passes.
\<close>

theorem weekly_window:
  assumes keys: "\<forall>day\<in>set (dailyHistory st). distinct (map fst (DailyProgressData.subjects day))"
  shows "(\<forall>s\<in>set (subjectProgress st). \<exists>r.
            calculateWeeklyStats tza parse now st (name s) = Some r
          \<and> SubjectCounts.correct r
              = correct (snapshotSubject (subjectProgress st) (name s))
                + (\<Sum>day\<leftarrow>filter (inLastWeek tza parse now) (dailyHistory st).
                     SubjectCounts.correct (recordCounts day (name s)))
          \<and> SubjectCounts.wrong r
              = wrong (snapshotSubject (subjectProgress st) (name s))
                + (\<Sum>day\<leftarrow>filter (inLastWeek tza parse now) (dailyHistory st).
                     SubjectCounts.wrong (recordCounts day (name s)))
          \<and> SubjectCounts.empty r
              = empty (snapshotSubject (subjectProgress st) (name s))
                + (\<Sum>day\<leftarrow>filter (inLastWeek tza parse now) (dailyHistory st).
                     SubjectCounts.empty (recordCounts day (name s)))
          \<and> SubjectCounts.total r
              = correct (snapshotSubject (subjectProgress st) (name s))
                + wrong (snapshotSubject (subjectProgress st) (name s))
                + empty (snapshotSubject (subjectProgress st) (name s))
                + (\<Sum>day\<leftarrow>filter (inLastWeek tza parse now) (dailyHistory st).
                     SubjectCounts.total (recordCounts day (name s))))
       \<and> (\<bar>offsetShift tza now\<bar> < msPerDay \<longrightarrow>
            (\<forall>day k. parse (date day) = Some (k * msPerDay)
               \<longrightarrow> (now div msPerDay - 5 \<le> k \<longrightarrow> inLastWeek tza parse now day)
                 \<and> (offsetShift tza now \<le> 0 \<and> now div msPerDay - 6 \<le> k
                      \<longrightarrow> inLastWeek tza parse now day)
                 \<and> (k \<le> now div msPerDay - 8 \<longrightarrow> \<not> inLastWeek tza parse now day)))
       \<and> (\<forall>day. parse (date day) = None \<longrightarrow> \<not> inLastWeek tza parse now day)"
proof (intro conjI ballI allI impI)
  fix s
  assume s: "s \<in> set (subjectProgress st)"
  let ?days = "filter (inLastWeek tza parse now) (dailyHistory st)"
  let ?own = "snapshotSubject (subjectProgress st) (name s)"
  let ?r = "foldl addCounts (ownCounts ?own) (map (\<lambda>day. recordCounts day (name s)) ?days)"
  from keys have keys': "\<forall>day\<in>set ?days. distinct (map fst (DailyProgressData.subjects day))"
    by simp
  have "calculateWeeklyStats tza parse now st (name s) = Some ?r"
    unfolding calculateWeeklyStats_def by (rule rollup_member[OF keys' s])
  then show "\<exists>r. calculateWeeklyStats tza parse now st (name s) = Some r
          \<and> SubjectCounts.correct r
              = correct ?own + (\<Sum>day\<leftarrow>?days. SubjectCounts.correct (recordCounts day (name s)))
          \<and> SubjectCounts.wrong r
              = wrong ?own + (\<Sum>day\<leftarrow>?days. SubjectCounts.wrong (recordCounts day (name s)))
          \<and> SubjectCounts.empty r
              = empty ?own + (\<Sum>day\<leftarrow>?days. SubjectCounts.empty (recordCounts day (name s)))
          \<and> SubjectCounts.total r
              = correct ?own + wrong ?own + empty ?own
                + (\<Sum>day\<leftarrow>?days. SubjectCounts.total (recordCounts day (name s)))"
    by (simp add: foldl_addCounts_fields ownCounts_def comp_def)
next
  fix day :: DailyProgress and k
  assume shift: "\<bar>offsetShift tza now\<bar> < msPerDay"
    and p: "parse (date day) = Some (k * msPerDay)"
    and k: "now div msPerDay - 5 \<le> k"
  from window_days(1)[OF shift k] p show "inLastWeek tza parse now day"
    by (simp add: inLastWeek_def)
next
  fix day :: DailyProgress and k
  assume shift: "\<bar>offsetShift tza now\<bar> < msPerDay"
    and p: "parse (date day) = Some (k * msPerDay)"
    and k: "offsetShift tza now \<le> 0 \<and> now div msPerDay - 6 \<le> k"
  from window_days(3)[OF shift conjunct1[OF k] conjunct2[OF k]] p
  show "inLastWeek tza parse now day"
    by (simp add: inLastWeek_def)
next
  fix day :: DailyProgress and k
  assume shift: "\<bar>offsetShift tza now\<bar> < msPerDay"
    and p: "parse (date day) = Some (k * msPerDay)"
    and k: "k \<le> now div msPerDay - 8"
  from window_days(2)[OF shift k] p show "\<not> inLastWeek tza parse now day"
    by (simp add: inLastWeek_def)
next
  fix day :: DailyProgress
  assume "parse (date day) = None"
  then show "\<not> inLastWeek tza parse now day"
    by (simp add: inLastWeek_def)
qed

lemma example_window:
  "filter (inLastWeek utcZone exampleParse exampleNow) (dailyHistory weekTracker)
     = [mathDay ''2024-01-12'' 1]"
  by (simp add: weekTracker_def mathDay_def inLastWeek_def exampleParse_def exampleNow_def
        weekAgo_def UTC_def LocalTime_def utcZone_def msPerDay_def)

theorem weekly_window_witness:
  "distinct (map name (subjectProgress weekTracker))
   \<and> distinct (map fst (DailyProgressData.subjects (mathDay ''2024-01-12'' 1)))
   \<and> \<bar>offsetShift utcZone exampleNow\<bar> < msPerDay
   \<and> exampleParse (date (mathDay ''2024-01-12'' 1)) = Some (19734 * msPerDay)
   \<and> exampleNow div msPerDay - 5 \<le> 19734
   \<and> inLastWeek utcZone exampleParse exampleNow (mathDay ''2024-01-12'' 1)
   \<and> exampleParse (date (mathDay ''2024-01-07'' 100)) = Some (19729 * msPerDay)
   \<and> 19729 \<le> exampleNow div msPerDay - 8
   \<and> \<not> inLastWeek utcZone exampleParse exampleNow (mathDay ''2024-01-07'' 100)
   \<and> exampleParse (date (mathDay ''2024-01-05'' 1000)) = Some (19727 * msPerDay)
   \<and> \<not> inLastWeek utcZone exampleParse exampleNow (mathDay ''2024-01-05'' 1000)
   \<and> exampleParse (date (mathDay ''1 Jan'' 1)) = None
   \<and> \<not> inLastWeek utcZone exampleParse exampleNow (mathDay ''1 Jan'' 1)
   \<and> (\<exists>r. calculateWeeklyStats utcZone exampleParse exampleNow weekTracker ''Matematik'' = Some r
        \<and> SubjectCounts.correct r = 6 \<and> SubjectCounts.wrong r = 0
        \<and> SubjectCounts.empty r = 0 \<and> SubjectCounts.total r = 6)
   \<and> \<bar>offsetShift newYorkZone autumnNow\<bar> < msPerDay
   \<and> newYorkParse (date (mathDay ''2024-11-02'' 1)) = Some (20029 * msPerDay)
   \<and> autumnNow div msPerDay - 5 \<le> 20029
   \<and> inLastWeek newYorkZone newYorkParse autumnNow (mathDay ''2024-11-02'' 1)
   \<and> newYorkParse (date (mathDay ''2024-10-30'' 1)) = Some (20026 * msPerDay)
   \<and> offsetShift newYorkZone autumnNow \<le> 0
   \<and> autumnNow div msPerDay - 6 \<le> 20026
   \<and> inLastWeek newYorkZone newYorkParse autumnNow (mathDay ''2024-10-30'' 1)
   \<and> newYorkParse (date (mathDay ''2024-10-22'' 1)) = Some (20018 * msPerDay)
   \<and> 20018 \<le> autumnNow div msPerDay - 8
   \<and> \<not> inLastWeek newYorkZone newYorkParse autumnNow (mathDay ''2024-10-22'' 1)"
proof -
  have n: "distinct (map name (subjectProgress weekTracker))"
    by (simp add: weekTracker_def mathOnly_def)
  have k: "\<forall>day\<in>set (dailyHistory weekTracker). distinct (map fst (DailyProgressData.subjects day))"
    by (simp add: weekTracker_def mathDay_def)
  have k1: "distinct (map fst (DailyProgressData.subjects (mathDay ''2024-01-12'' 1)))"
    by (simp add: mathDay_def)
  have m: "hd (subjectProgress weekTracker) \<in> set (subjectProgress weekTracker)"
    by (simp add: weekTracker_def mathOnly_def)
  have today: "exampleNow div msPerDay = 19737"
    by (simp add: exampleNow_def msPerDay_def)
  have sh: "\<bar>offsetShift utcZone exampleNow\<bar> < msPerDay"
    by (simp add: offsetShift_def utcZone_def msPerDay_def)
  have p3: "exampleParse (date (mathDay ''2024-01-12'' 1)) = Some (19734 * msPerDay)"
    and p8: "exampleParse (date (mathDay ''2024-01-07'' 100)) = Some (19729 * msPerDay)"
    and p10: "exampleParse (date (mathDay ''2024-01-05'' 1000)) = Some (19727 * msPerDay)"
    and pn: "exampleParse (date (mathDay ''1 Jan'' 1)) = None"
    by (simp_all add: exampleParse_def mathDay_def)
  have t3: "exampleNow div msPerDay - 5 \<le> 19734"
    and t8: "19729 \<le> exampleNow div msPerDay - 8"
    and t10: "19727 \<le> exampleNow div msPerDay - 8"
    using today by simp_all
  note main = weekly_window[OF k, of utcZone exampleParse exampleNow]
  note win = main[THEN conjunct2, THEN conjunct1, rule_format, OF sh]
  from win[OF p3, THEN conjunct1, rule_format, OF t3]
  have i3: "inLastWeek utcZone exampleParse exampleNow (mathDay ''2024-01-12'' 1)" .
  from win[OF p8, THEN conjunct2, THEN conjunct2, rule_format, OF t8]
  have i8: "\<not> inLastWeek utcZone exampleParse exampleNow (mathDay ''2024-01-07'' 100)" .
  from win[OF p10, THEN conjunct2, THEN conjunct2, rule_format, OF t10]
  have i10: "\<not> inLastWeek utcZone exampleParse exampleNow (mathDay ''2024-01-05'' 1000)" .
  from main[THEN conjunct2, THEN conjunct2, rule_format, OF pn]
  have inone: "\<not> inLastWeek utcZone exampleParse exampleNow (mathDay ''1 Jan'' 1)" .
  from main[THEN conjunct1, rule_format, OF m] obtain r where r: "calculateWeeklyStats utcZone exampleParse exampleNow weekTracker (name (hd (subjectProgress weekTracker))) = Some r"
    and c: "SubjectCounts.correct r = correct (snapshotSubject (subjectProgress weekTracker) (name (hd (subjectProgress weekTracker))))
         + (\<Sum>day\<leftarrow>filter (inLastWeek utcZone exampleParse exampleNow) (dailyHistory weekTracker).
              SubjectCounts.correct (recordCounts day (name (hd (subjectProgress weekTracker)))))"
    and w: "SubjectCounts.wrong r = wrong (snapshotSubject (subjectProgress weekTracker) (name (hd (subjectProgress weekTracker))))
         + (\<Sum>day\<leftarrow>filter (inLastWeek utcZone exampleParse exampleNow) (dailyHistory weekTracker).
              SubjectCounts.wrong (recordCounts day (name (hd (subjectProgress weekTracker)))))"
    and e: "SubjectCounts.empty r = empty (snapshotSubject (subjectProgress weekTracker) (name (hd (subjectProgress weekTracker))))
         + (\<Sum>day\<leftarrow>filter (inLastWeek utcZone exampleParse exampleNow) (dailyHistory weekTracker).
              SubjectCounts.empty (recordCounts day (name (hd (subjectProgress weekTracker)))))"
    and t: "SubjectCounts.total r
         = correct (snapshotSubject (subjectProgress weekTracker) (name (hd (subjectProgress weekTracker))))
         + wrong (snapshotSubject (subjectProgress weekTracker) (name (hd (subjectProgress weekTracker))))
         + empty (snapshotSubject (subjectProgress weekTracker) (name (hd (subjectProgress weekTracker))))
         + (\<Sum>day\<leftarrow>filter (inLastWeek utcZone exampleParse exampleNow) (dailyHistory weekTracker).
              SubjectCounts.total (recordCounts day (name (hd (subjectProgress weekTracker)))))"
    by blast
  have nm: "hd (subjectProgress weekTracker)
      = \<lparr> name = ''Matematik'', icon = [], correct = 5, wrong = 0, empty = 0, target = 15,
          color = ''bg-blue-500'' \<rparr>"
    by (simp add: weekTracker_def mathOnly_def)
  have 1: "\<exists>r. calculateWeeklyStats utcZone exampleParse exampleNow weekTracker ''Matematik'' = Some r
        \<and> SubjectCounts.correct r = 6 \<and> SubjectCounts.wrong r = 0
        \<and> SubjectCounts.empty r = 0 \<and> SubjectCounts.total r = 6"
    using r c w e t unfolding example_window nm
    by (simp add: mathDay_def recordCounts_def snapshotSubject_def weekTracker_def mathOnly_def)
  have ak: "\<forall>day\<in>set (dailyHistory mathOnly). distinct (map fst (DailyProgressData.subjects day))"
    by (simp add: mathOnly_def)
  have atoday: "autumnNow div msPerDay = 20032"
    by (simp add: autumnNow_def msPerDay_def)
  have ash: "\<bar>offsetShift newYorkZone autumnNow\<bar> < msPerDay"
    by (simp add: offsetShift_def newYorkZone_def LocalTime_def autumnNow_def msPerDay_def)
  have a3: "newYorkParse (date (mathDay ''2024-11-02'' 1)) = Some (20029 * msPerDay)"
    and a6: "newYorkParse (date (mathDay ''2024-10-30'' 1)) = Some (20026 * msPerDay)"
    and a14: "newYorkParse (date (mathDay ''2024-10-22'' 1)) = Some (20018 * msPerDay)"
    by (simp_all add: newYorkParse_def mathDay_def)
  have u3: "autumnNow div msPerDay - 5 \<le> 20029"
    and u6: "autumnNow div msPerDay - 6 \<le> 20026"
    and u14: "20018 \<le> autumnNow div msPerDay - 8"
    using atoday by simp_all
  have noshift: "offsetShift newYorkZone autumnNow \<le> 0"
    by (simp add: offsetShift_def newYorkZone_def LocalTime_def autumnNow_def msPerDay_def)
  note awin = weekly_window[OF ak, of newYorkZone newYorkParse autumnNow,
      THEN conjunct2, THEN conjunct1, rule_format, OF ash]
  from awin[OF a3, THEN conjunct1, rule_format, OF u3]
  have j3: "inLastWeek newYorkZone newYorkParse autumnNow (mathDay ''2024-11-02'' 1)" .
  from awin[OF a14, THEN conjunct2, THEN conjunct2, rule_format, OF u14]
  have j14: "\<not> inLastWeek newYorkZone newYorkParse autumnNow (mathDay ''2024-10-22'' 1)" .
  from awin[OF a6, THEN conjunct2, THEN conjunct1, rule_format, OF conjI[OF noshift u6]]
  have j6: "inLastWeek newYorkZone newYorkParse autumnNow (mathDay ''2024-10-30'' 1)" .
  from n k1 sh p3 t3 i3 p8 t8 i8 p10 i10 pn inone 1 ash a3 u3 j3 a6 noshift u6 j6 a14 u14 j14
  show ?thesis
    by (intro conjI)
qed

text \<open>
  C7 as stated fails at the boundary: at 10:00 UTC on 2024-01-15, in the UTC time zone, the
  record dated 2024-01-08, exactly seven days before today, is filtered out and the weekly
  rollup holds the snapshot's counts only.
\<close>

theorem weekly_boundary_counterexample:
  "exampleParse (date (mathDay ''2024-01-08'' 10)) = Some ((exampleNow div msPerDay - 7) * msPerDay)
   \<and> \<not> inLastWeek utcZone exampleParse exampleNow (mathDay ''2024-01-08'' 10)
   \<and> calculateWeeklyStats utcZone exampleParse exampleNow
        (mathOnly\<lparr>dailyHistory := [mathDay ''2024-01-08'' 10]\<rparr>) ''Matematik''
       = Some \<lparr> SubjectCounts.correct = 5, SubjectCounts.wrong = 0, SubjectCounts.empty = 0,
                SubjectCounts.total = 5 \<rparr>"
  by (simp add: exampleParse_def exampleNow_def msPerDay_def mathDay_def inLastWeek_def weekAgo_def
        UTC_def LocalTime_def utcZone_def calculateWeeklyStats_def mathOnly_def seedStats_def)

text \<open>
  The days in between depend on the time of day and on clock changes. In New York on
  2024-11-05 at 00:30 UTC (19:30 local time on 2024-11-04), two days after the clocks went
  back, \<open>weekAgo\<close> is 2024-10-28 at 23:30 UTC and the record dated 2024-10-29, seven UTC days
  back, passes the filter. On 2024-03-14 at 23:30 UTC (19:30 local time), four days after the
  clocks went forward, \<open>weekAgo\<close> is 2024-03-08 at 00:30 UTC and the record dated 2024-03-08,
  six UTC days back, does not pass.
\<close>

lemma clocks_back_example:
  "weekAgo newYorkZone autumnNow = 20025 * msPerDay - 1800000
   \<and> newYorkParse (date (mathDay ''2024-10-29'' 1)) = Some ((autumnNow div msPerDay - 7) * msPerDay)
   \<and> inLastWeek newYorkZone newYorkParse autumnNow (mathDay ''2024-10-29'' 1)"
  by (simp add: weekAgo_def UTC_def LocalTime_def newYorkZone_def autumnNow_def newYorkParse_def
        mathDay_def inLastWeek_def msPerDay_def)

lemma clocks_forward_example:
  "weekAgo newYorkZone springNow = 19790 * msPerDay + 1800000
   \<and> offsetShift newYorkZone springNow = 3600000
   \<and> newYorkParse (date (mathDay ''2024-03-08'' 1)) = Some ((springNow div msPerDay - 6) * msPerDay)
   \<and> \<not> inLastWeek newYorkZone newYorkParse springNow (mathDay ''2024-03-08'' 1)"
  by (simp add: weekAgo_def UTC_def LocalTime_def offsetShift_def newYorkZone_def springNow_def
        newYorkParse_def mathDay_def inLastWeek_def msPerDay_def)

section \<open>Upserting a daily record\<close>

lemma issue_ok: "failures fs = [] \<Longrightarrow> issue r fs = (True, fs\<lparr>requests := requests fs @ [r]\<rparr>)"
  by (simp add: issue_def)

lemma update_count:
  "distinct (map fst al) \<Longrightarrow> length (filter (\<lambda>(k', v'). k' = k) (AList.update k v al)) = 1"
proof (induction al)
  case Nil
  show ?case by simp
next
  case (Cons p al)
  obtain k' v' where p: "p = (k', v')" by (cases p)
  show ?case
  proof (cases "k' = k")
    case True
    with Cons.prems p have "k \<notin> fst ` set al" by auto
    then have "filter (\<lambda>(k', v'). k' = k) al = []"
      by (force simp: filter_empty_conv)
    with True p show ?thesis by simp
  next
    case False
    with Cons p show ?thesis by simp
  qed
qed

lemma fold_update_other:
  "n \<notin> fst ` set new \<Longrightarrow> map_of (fold (\<lambda>(k, e) al. AList.update k e al) new old) n = map_of old n"
proof (induction new arbitrary: old)
  case Nil
  show ?case by simp
next
  case (Cons p new)
  obtain k e where p: "p = (k, e)" by (cases p)
  from Cons.prems p have nk: "n \<noteq> k" and rest: "n \<notin> fst ` set new" by auto
  have "map_of (fold (\<lambda>(k, e) al. AList.update k e al) (p # new) old) n
      = map_of (fold (\<lambda>(k, e) al. AList.update k e al) new (AList.update k e old)) n"
    by (simp add: p)
  also have "\<dots> = map_of (AList.update k e old) n" by (rule Cons.IH[OF rest])
  also have "\<dots> = map_of old n" using nk by (simp add: update_conv')
  finally show ?case .
qed

lemma fold_update_member:
  "distinct (map fst new) \<Longrightarrow> (n, e) \<in> set new
     \<Longrightarrow> map_of (fold (\<lambda>(k, e) al. AList.update k e al) new old) n = Some e"
proof (induction new arbitrary: old)
  case Nil
  then show ?case by simp
next
  case (Cons p new)
  obtain k e' where p: "p = (k, e')" by (cases p)
  from Cons.prems p have d: "distinct (map fst new)" and k: "k \<notin> fst ` set new" by auto
  have step: "map_of (fold (\<lambda>(k, e) al. AList.update k e al) (p # new) old) n
      = map_of (fold (\<lambda>(k, e) al. AList.update k e al) new (AList.update k e' old)) n"
    by (simp add: p)
  show ?case
  proof (cases "(n, e) \<in> set new")
    case True
    from Cons.IH[OF d True] step show ?thesis by simp
  next
    case False
    with Cons.prems p have eq: "n = k" "e = e'" by auto
    from fold_update_other[OF k, of "AList.update k e' old"] step eq show ?thesis
      by (simp add: update_conv')
  qed
qed

lemma mergeSubjects_member:
  "distinct (map fst new) \<Longrightarrow> (n, e) \<in> set new \<Longrightarrow> map_of (mergeSubjects old new) n = Some e"
  unfolding mergeSubjects_def using fold_update_member[of new n e old] by auto

lemma mergeSubjects_other:
  "new \<noteq> [] \<Longrightarrow> n \<notin> fst ` set new \<Longrightarrow> map_of (mergeSubjects old new) n = map_of old n"
  unfolding mergeSubjects_def using fold_update_other[of n new old] by simp

lemma mergeDaily_fields:
  "date (mergeDaily stored data) = date data"
  "total (mergeDaily stored data) = total data"
  "userId (mergeDaily stored data) = userId data"
  "timestamp (mergeDaily stored data) = timestamp data"
  by (simp_all add: mergeDaily_def split: option.splits)

lemma mergeDaily_member:
  "distinct (map fst (DailyProgressData.subjects data)) \<Longrightarrow> (n, e) \<in> set (DailyProgressData.subjects data)
     \<Longrightarrow> map_of (DailyProgressData.subjects (mergeDaily stored data)) n = Some e"
  by (cases stored) (simp_all add: mergeDaily_def mergeSubjects_member)

lemma mergeDaily_keeps:
  "DailyProgressData.totalTarget data = None
     \<Longrightarrow> DailyProgressData.totalTarget (mergeDaily (Some old) data) = DailyProgressData.totalTarget old"
  "DailyProgressData.subjects data \<noteq> [] \<Longrightarrow> n \<notin> fst ` set (DailyProgressData.subjects data)
     \<Longrightarrow> map_of (DailyProgressData.subjects (mergeDaily (Some old) data)) n
         = map_of (DailyProgressData.subjects old) n"
  by (simp_all add: mergeDaily_def mergeSubjects_other)

lemma save_requests:
  "requests (snd (saveDailyProgressForDate clk fs uid dp))
     = requests fs @ [SetDocMerge ''dailyHistory'' (uid @ ''_'' @ date dp)]"
  by (simp add: saveDailyProgressForDate_def Let_def dailyDocId_def issue_def
      split: list.splits prod.splits bool.splits)

lemma save_ok:
  assumes "failures fs = []"
  shows "saveDailyProgressForDate clk fs uid dp =
     (Inr (),
      fs\<lparr>requests := requests fs @ [SetDocMerge ''dailyHistory'' (dailyDocId uid (date dp))],
          dailyHistory_docs :=
            AList.update (dailyDocId uid (date dp))
              (mergeDaily (map_of (dailyHistory_docs fs) (dailyDocId uid (date dp))) (dailyData clk uid dp))
              (dailyHistory_docs fs)\<rparr>)"
  by (simp add: saveDailyProgressForDate_def Let_def issue_ok[OF assms] dailyData_def)

lemma save_ok_inv:
  assumes "failures fs = []" and "distinct (map fst (dailyHistory_docs fs))"
  shows "failures (snd (saveDailyProgressForDate clk fs uid dp)) = []"
    and "distinct (map fst (dailyHistory_docs (snd (saveDailyProgressForDate clk fs uid dp))))"
  using assms by (simp_all add: save_ok distinct_update)

lemma saveDailySeq_snoc:
  "saveDailySeq fs uid (ws @ [(clk, dp)]) = snd (saveDailyProgressForDate clk (saveDailySeq fs uid ws) uid dp)"
  by (induction fs uid ws rule: saveDailySeq.induct) simp_all

lemma saveDailySeq_inv:
  assumes "failures fs = []" and "distinct (map fst (dailyHistory_docs fs))"
  shows "failures (saveDailySeq fs uid ws) = [] \<and> distinct (map fst (dailyHistory_docs (saveDailySeq fs uid ws)))"
  using assms
proof (induction fs uid ws rule: saveDailySeq.induct)
  case (1 fs uid)
  then show ?case by simp
next
  case (2 fs uid clk dp ws)
  from save_ok_inv[OF "2.prems"] "2.IH" show ?case by simp
qed

lemma saveDailySeq_requests:
  "\<forall>(clk, dp)\<in>set ws. date dp = d
     \<Longrightarrow> requests (saveDailySeq fs uid ws)
         = requests fs @ replicate (length ws) (SetDocMerge ''dailyHistory'' (uid @ ''_'' @ d))"
proof (induction fs uid ws rule: saveDailySeq.induct)
  case (1 fs uid)
  then show ?case by simp
next
  case (2 fs uid clk dp ws)
  then have d: "date dp = d" and rest: "\<forall>(clk, dp)\<in>set ws. date dp = d" by auto
  from "2.IH"[OF rest] show ?case
    by (simp add: save_requests d replicate_app_Cons_same)
qed

lemma saveDailySeq_other:
  "\<forall>(clk, dp)\<in>set ws. date dp = d \<Longrightarrow> k \<noteq> dailyDocId uid d
     \<Longrightarrow> map_of (dailyHistory_docs (saveDailySeq fs uid ws)) k = map_of (dailyHistory_docs fs) k"
proof (induction fs uid ws rule: saveDailySeq.induct)
  case (1 fs uid)
  then show ?case by simp
next
  case (2 fs uid clk dp ws)
  then have d: "date dp = d" and rest: "\<forall>(clk, dp)\<in>set ws. date dp = d" by auto
  have "map_of (dailyHistory_docs (snd (saveDailyProgressForDate clk fs uid dp))) k
      = map_of (dailyHistory_docs fs) k"
    using "2.prems"(2) d
    by (simp add: saveDailyProgressForDate_def Let_def issue_def update_conv'
        split: list.splits prod.splits bool.splits)
  with "2.IH"[OF rest "2.prems"(2)] show ?case by simp
qed

lemma mergeDaily_totalTarget:
  "DailyProgressData.totalTarget data = Some t
     \<Longrightarrow> DailyProgressData.totalTarget (mergeDaily stored data) = Some t"
  by (cases stored) (simp_all add: mergeDaily_def)

text \<open>
  C5. In a store whose requests succeed, any run of writes for one user and one date, ending
  with the snapshot \<open>dp\<close>, issues only merge writes to the document id
  \<open>userId_date\<close>; afterwards exactly one document is stored under that id, and no other
  document has changed. The stored document carries the date, total, user and timestamp
  of the last write and every subject entry of the last snapshot. What the last write does
  not specify stays as it was stored: the total target when the snapshot has none, and the
  entries of subjects the snapshot does not name (the snapshot naming at least one subject;
  an empty \<open>subjects\<close> map is itself a written value).
\<close>

theorem upsert_keyed_merge:
  assumes ok: "failures fs = []"
    and ids: "distinct (map fst (dailyHistory_docs fs))"
    and same: "\<forall>(c, p)\<in>set ws. date p = date dp"
    and keys: "distinct (map fst (DailyProgressData.subjects dp))"
  shows "requests (saveDailySeq fs uid (ws @ [(clk, dp)]))
           = requests fs @ replicate (length ws + 1) (SetDocMerge ''dailyHistory'' (uid @ ''_'' @ date dp))
       \<and> length (filter (\<lambda>(k, doc). k = uid @ ''_'' @ date dp)
                   (dailyHistory_docs (saveDailySeq fs uid (ws @ [(clk, dp)])))) = 1
       \<and> (\<forall>k. k \<noteq> uid @ ''_'' @ date dp
             \<longrightarrow> map_of (dailyHistory_docs (saveDailySeq fs uid (ws @ [(clk, dp)]))) k
                 = map_of (dailyHistory_docs fs) k)
       \<and> (\<exists>doc. map_of (dailyHistory_docs (saveDailySeq fs uid (ws @ [(clk, dp)]))) (uid @ ''_'' @ date dp)
                  = Some doc
             \<and> date doc = date dp \<and> total doc = total dp \<and> userId doc = uid
             \<and> timestamp doc = serverTimestamp clk
             \<and> (\<forall>(n, e)\<in>set (DailyProgressData.subjects dp).
                   map_of (DailyProgressData.subjects doc) n = Some e)
             \<and> (\<forall>t. DailyProgressData.totalTarget dp = Some t
                   \<longrightarrow> DailyProgressData.totalTarget doc = Some t)
             \<and> (\<forall>old. map_of (dailyHistory_docs (saveDailySeq fs uid ws)) (uid @ ''_'' @ date dp) = Some old
                   \<longrightarrow> (DailyProgressData.totalTarget dp = None
                          \<longrightarrow> DailyProgressData.totalTarget doc = DailyProgressData.totalTarget old)
                     \<and> (DailyProgressData.subjects dp \<noteq> []
                          \<longrightarrow> (\<forall>n. n \<notin> fst ` set (DailyProgressData.subjects dp)
                                \<longrightarrow> map_of (DailyProgressData.subjects doc) n
                                    = map_of (DailyProgressData.subjects old) n))))"
proof -
  let ?key = "uid @ ''_'' @ date dp"
  let ?fs1 = "saveDailySeq fs uid ws"
  let ?fs2 = "saveDailySeq fs uid (ws @ [(clk, dp)])"
  let ?data = "dailyData clk uid dp"
  let ?doc = "mergeDaily (map_of (dailyHistory_docs ?fs1) ?key) ?data"
  have key: "dailyDocId uid (date dp) = ?key"
    by (simp add: dailyDocId_def)
  from saveDailySeq_inv[OF ok ids, of uid ws]
  have ok1: "failures ?fs1 = []" and ids1: "distinct (map fst (dailyHistory_docs ?fs1))"
    by simp_all
  have docs2: "dailyHistory_docs ?fs2 = AList.update ?key ?doc (dailyHistory_docs ?fs1)"
    by (simp add: saveDailySeq_snoc save_ok[OF ok1] key)
  from same have same2: "\<forall>(c, p)\<in>set (ws @ [(clk, dp)]). date p = date dp"
    by auto
  have 1: "requests ?fs2
      = requests fs @ replicate (length ws + 1) (SetDocMerge ''dailyHistory'' ?key)"
    using saveDailySeq_requests[OF same2, of fs uid] by simp
  have 2: "length (filter (\<lambda>(k, doc). k = ?key) (dailyHistory_docs ?fs2)) = 1"
    unfolding docs2 by (rule update_count[OF ids1])
  have 3: "\<forall>k. k \<noteq> ?key \<longrightarrow> map_of (dailyHistory_docs ?fs2) k = map_of (dailyHistory_docs fs) k"
    using saveDailySeq_other[OF same2, of _ uid fs] by (simp add: key)
  have found: "map_of (dailyHistory_docs ?fs2) ?key = Some ?doc"
    unfolding docs2 by (simp add: update_conv')
  have fields: "date ?doc = date dp" "total ?doc = total dp" "userId ?doc = uid"
    "timestamp ?doc = serverTimestamp clk"
    by (simp_all add: mergeDaily_fields dailyData_def)
  have dsub: "DailyProgressData.subjects ?data = DailyProgressData.subjects dp"
    and dtt: "DailyProgressData.totalTarget ?data = DailyProgressData.totalTarget dp"
    by (simp_all add: dailyData_def)
  have entries: "\<forall>(n, e)\<in>set (DailyProgressData.subjects dp).
      map_of (DailyProgressData.subjects ?doc) n = Some e"
    using mergeDaily_member[of ?data] keys unfolding dsub by auto
  have tt: "\<forall>t. DailyProgressData.totalTarget dp = Some t
      \<longrightarrow> DailyProgressData.totalTarget ?doc = Some t"
    using mergeDaily_totalTarget[of ?data] unfolding dtt by auto
  have keep: "\<forall>old. map_of (dailyHistory_docs ?fs1) ?key = Some old
      \<longrightarrow> (DailyProgressData.totalTarget dp = None
             \<longrightarrow> DailyProgressData.totalTarget ?doc = DailyProgressData.totalTarget old)
        \<and> (DailyProgressData.subjects dp \<noteq> []
             \<longrightarrow> (\<forall>n. n \<notin> fst ` set (DailyProgressData.subjects dp)
                   \<longrightarrow> map_of (DailyProgressData.subjects ?doc) n
                       = map_of (DailyProgressData.subjects old) n))"
  proof (intro allI impI conjI)
    fix old
    assume old: "map_of (dailyHistory_docs ?fs1) ?key = Some old"
    {
      assume "DailyProgressData.totalTarget dp = None"
      then show "DailyProgressData.totalTarget ?doc = DailyProgressData.totalTarget old"
        unfolding old using mergeDaily_keeps(1)[of ?data old] by (simp add: dtt)
    }
    {
      fix n
      assume "DailyProgressData.subjects dp \<noteq> []" and "n \<notin> fst ` set (DailyProgressData.subjects dp)"
      then show "map_of (DailyProgressData.subjects ?doc) n = map_of (DailyProgressData.subjects old) n"
        unfolding old using mergeDaily_keeps(2)[of ?data n old] by (simp add: dsub)
    }
  qed
  from found fields entries tt keep
  have 4: "\<exists>doc. map_of (dailyHistory_docs ?fs2) ?key = Some doc
             \<and> date doc = date dp \<and> total doc = total dp \<and> userId doc = uid
             \<and> timestamp doc = serverTimestamp clk
             \<and> (\<forall>(n, e)\<in>set (DailyProgressData.subjects dp).
                   map_of (DailyProgressData.subjects doc) n = Some e)
             \<and> (\<forall>t. DailyProgressData.totalTarget dp = Some t
                   \<longrightarrow> DailyProgressData.totalTarget doc = Some t)
             \<and> (\<forall>old. map_of (dailyHistory_docs ?fs1) ?key = Some old
                   \<longrightarrow> (DailyProgressData.totalTarget dp = None
                          \<longrightarrow> DailyProgressData.totalTarget doc = DailyProgressData.totalTarget old)
                     \<and> (DailyProgressData.subjects dp \<noteq> []
                          \<longrightarrow> (\<forall>n. n \<notin> fst ` set (DailyProgressData.subjects dp)
                                \<longrightarrow> map_of (DailyProgressData.subjects doc) n
                                    = map_of (DailyProgressData.subjects old) n)))"
    by (intro exI[of _ ?doc] conjI)
  from 1 2 3 4 show ?thesis
    by (intro conjI)
qed

theorem upsert_keyed_merge_witness:
  "failures exampleStore = []
   \<and> distinct (map fst (dailyHistory_docs exampleStore))
   \<and> date fenPayload = ''2024-01-15''
   \<and> distinct (map fst (DailyProgressData.subjects fenPayload))
   \<and> length (filter (\<lambda>(k, doc). k = ''u1_2024-01-15'')
        (dailyHistory_docs (saveDailySeq exampleStore ''u1''
           [(exampleClock, fenPayload), (exampleClock, fenPayload)]))) = 1
   \<and> (\<exists>doc. map_of (dailyHistory_docs (saveDailySeq exampleStore ''u1''
                  [(exampleClock, fenPayload), (exampleClock, fenPayload)])) ''u1_2024-01-15'' = Some doc
         \<and> total doc = 1
         \<and> DailyProgressData.totalTarget doc = Some 99
         \<and> map_of (DailyProgressData.subjects doc) ''Fen Bilimleri''
             = Some \<lparr> SubjectCounts.correct = 1, SubjectCounts.wrong = 0, SubjectCounts.empty = 0,
                      SubjectCounts.total = 1 \<rparr>
         \<and> map_of (DailyProgressData.subjects doc) ''Matematik''
             = Some \<lparr> SubjectCounts.correct = 5, SubjectCounts.wrong = 2, SubjectCounts.empty = 0,
                      SubjectCounts.total = 7 \<rparr>)"
proof -
  let ?ws = "[(exampleClock, fenPayload)]"
  let ?fs2 = "saveDailySeq exampleStore ''u1'' [(exampleClock, fenPayload), (exampleClock, fenPayload)]"
  have ok: "failures exampleStore = []"
    and ids: "distinct (map fst (dailyHistory_docs exampleStore))"
    by (simp_all add: exampleStore_def)
  have same: "\<forall>(c, p)\<in>set ?ws. date p = date fenPayload"
    by simp
  have d: "date fenPayload = ''2024-01-15''"
    and keys: "distinct (map fst (DailyProgressData.subjects fenPayload))"
    and sub: "DailyProgressData.subjects fenPayload = [(''Fen Bilimleri'',
          \<lparr> SubjectCounts.correct = 1, SubjectCounts.wrong = 0, SubjectCounts.empty = 0,
            SubjectCounts.total = 1 \<rparr>)]"
    and tt: "DailyProgressData.totalTarget fenPayload = None"
    and tot: "total fenPayload = 1"
    by (simp_all add: fenPayload_def)
  have old: "\<exists>old. map_of (dailyHistory_docs (saveDailySeq exampleStore ''u1'' ?ws)) ''u1_2024-01-15'' = Some old
      \<and> DailyProgressData.totalTarget old = Some 99
      \<and> map_of (DailyProgressData.subjects old) ''Matematik''
          = Some \<lparr> SubjectCounts.correct = 5, SubjectCounts.wrong = 2, SubjectCounts.empty = 0,
                   SubjectCounts.total = 7 \<rparr>"
    by (simp add: saveDailyProgressForDate_def Let_def issue_def exampleStore_def dailyDocId_def
          fenPayload_def mergeDaily_def mergeSubjects_def mathRecord_def)
  note main = upsert_keyed_merge[OF ok ids same keys, of "''u1''" exampleClock]
  have app: "?ws @ [(exampleClock, fenPayload)] = [(exampleClock, fenPayload), (exampleClock, fenPayload)]"
    by simp
  from main[THEN conjunct2, THEN conjunct1]
  have count: "length (filter (\<lambda>(k, doc). k = ''u1_2024-01-15'') (dailyHistory_docs ?fs2)) = 1"
    unfolding app d by simp
  from main[THEN conjunct2, THEN conjunct2, THEN conjunct2] old
  have doc: "\<exists>doc. map_of (dailyHistory_docs ?fs2) ''u1_2024-01-15'' = Some doc
         \<and> total doc = 1
         \<and> DailyProgressData.totalTarget doc = Some 99
         \<and> map_of (DailyProgressData.subjects doc) ''Fen Bilimleri''
             = Some \<lparr> SubjectCounts.correct = 1, SubjectCounts.wrong = 0, SubjectCounts.empty = 0,
                      SubjectCounts.total = 1 \<rparr>
         \<and> map_of (DailyProgressData.subjects doc) ''Matematik''
             = Some \<lparr> SubjectCounts.correct = 5, SubjectCounts.wrong = 2, SubjectCounts.empty = 0,
                      SubjectCounts.total = 7 \<rparr>"
    unfolding app d sub tt tot by (elim exE conjE) (auto)
  from ok ids d keys count doc show ?thesis
    by (intro conjI)
qed

section \<open>Initialising the catalog\<close>

lemma defaultSubjects_targets: "map target defaultSubjects = [10, 15, 8, 12, 10, 5]"
  by (simp add: defaultSubjects_def)

lemma defaultSubjects_total: "sumTargets defaultSubjects = 60"
  by (simp add: sumTargets_def defaultSubjects_def)

lemma defaultSubjects_zero:
  "map (\<lambda>subject. subject\<lparr>correct := 0, wrong := 0, empty := 0\<rparr>) defaultSubjects = defaultSubjects"
  by (simp add: defaultSubjects_def)

lemma initProgress_creates:
  assumes "failures fs = []" and "userProgress_docs fs uid = None"
  shows "fst (initializeUserProgress clk fs uid) = Inr ()"
    and "userProgress_docs (snd (initializeUserProgress clk fs uid)) =
           (userProgress_docs fs)(uid \<mapsto>
             \<lparr> UserProgress.subjects = defaultSubjects, UserProgress.totalTarget = 60,
               UserProgress.lastUpdated = serverTimestamp clk, lastUpdateDate = Some (isoDate clk) \<rparr>)"
  using assms
  by (simp_all add: initializeUserProgress_def getUserProgress_def saveUserProgress_def issue_def
        defaultSubjects_total)

lemma initProgress_existing:
  assumes "userProgress_docs fs uid = Some up"
  shows "userProgress_docs (snd (initializeUserProgress clk fs uid)) = userProgress_docs fs"
  using assms
  by (auto simp: initializeUserProgress_def getUserProgress_def issue_def
        split: list.splits bool.splits)

lemma initProgress_success:
  assumes "fst (initializeUserProgress clk fs uid) = Inr ()"
  shows "userProgress_docs (snd (initializeUserProgress clk fs uid)) uid \<noteq> None"
  using assms
  by (auto simp: initializeUserProgress_def getUserProgress_def saveUserProgress_def issue_def
        split: list.splits bool.splits option.splits if_splits)

lemma initProgress_others:
  "u \<noteq> uid \<Longrightarrow> userProgress_docs (snd (initializeUserProgress clk fs uid)) u = userProgress_docs fs u"
  by (auto simp: initializeUserProgress_def getUserProgress_def saveUserProgress_def issue_def
        split: list.splits bool.splits option.splits if_splits)

lemma initSettings_creates:
  assumes "failures fs = []" and "userSettings_docs fs uid = None"
  shows "fst (initializeUserSettings clk fs uid) = Inr ()"
    and "userSettings_docs (snd (initializeUserSettings clk fs uid)) =
           (userSettings_docs fs)(uid \<mapsto>
             \<lparr> UserSettings.subjects = defaultSubjects, UserSettings.totalTarget = 60,
               UserSettings.lastUpdated = serverTimestamp clk \<rparr>)"
  using assms
  by (simp_all add: initializeUserSettings_def getUserSettings_def saveUserSettings_def issue_def
        defaultSubjects_total defaultSubjects_zero)

lemma initSettings_existing:
  assumes "userSettings_docs fs uid = Some up"
  shows "userSettings_docs (snd (initializeUserSettings clk fs uid)) = userSettings_docs fs"
  using assms
  by (auto simp: initializeUserSettings_def getUserSettings_def issue_def
        split: list.splits bool.splits)

lemma initSettings_others:
  "u \<noteq> uid \<Longrightarrow> userSettings_docs (snd (initializeUserSettings clk fs uid)) u = userSettings_docs fs u"
  by (auto simp: initializeUserSettings_def getUserSettings_def saveUserSettings_def issue_def Let_def
        split: list.splits bool.splits option.splits if_splits)

lemma initSettings_success:
  assumes "fst (initializeUserSettings clk fs uid) = Inr ()"
  shows "userSettings_docs (snd (initializeUserSettings clk fs uid)) uid \<noteq> None"
  using assms
  by (auto simp: initializeUserSettings_def getUserSettings_def saveUserSettings_def issue_def Let_def
        split: list.splits bool.splits option.splits if_splits)

text \<open>
  C6. \<open>initializeUserProgress\<close> (the catalog the page loads) and \<open>initializeUserSettings\<close>
  (run at registration) behave alike. When the user has no document and the requests succeed,
  the call succeeds and stores the six default subjects with targets 10, 15, 8, 12, 10, 5 and
  total target 60. When the user has a document, the collection is left exactly as it was.
  Hence after a successful first call a second call, at any later time, changes nothing in the
  collection: the user's one document and its targets are as the first call left them. No call
  touches another user's document.
\<close>

theorem initialize_once:
  "(failures fs = [] \<and> userProgress_docs fs uid = None
      \<longrightarrow> fst (initializeUserProgress clk fs uid) = Inr ()
        \<and> (\<exists>up. userProgress_docs (snd (initializeUserProgress clk fs uid)) uid = Some up
              \<and> UserProgress.subjects up = defaultSubjects
              \<and> map target (UserProgress.subjects up) = [10, 15, 8, 12, 10, 5]
              \<and> UserProgress.totalTarget up = 60))
   \<and> (userProgress_docs fs uid \<noteq> None
      \<longrightarrow> userProgress_docs (snd (initializeUserProgress clk fs uid)) = userProgress_docs fs)
   \<and> (fst (initializeUserProgress clk fs uid) = Inr ()
      \<longrightarrow> userProgress_docs (snd (initializeUserProgress clk' (snd (initializeUserProgress clk fs uid)) uid))
          = userProgress_docs (snd (initializeUserProgress clk fs uid)))
   \<and> (failures fs = [] \<and> userSettings_docs fs uid = None
      \<longrightarrow> fst (initializeUserSettings clk fs uid) = Inr ()
        \<and> (\<exists>us. userSettings_docs (snd (initializeUserSettings clk fs uid)) uid = Some us
              \<and> UserSettings.subjects us = defaultSubjects
              \<and> map target (UserSettings.subjects us) = [10, 15, 8, 12, 10, 5]
              \<and> UserSettings.totalTarget us = 60))
   \<and> (userSettings_docs fs uid \<noteq> None
      \<longrightarrow> userSettings_docs (snd (initializeUserSettings clk fs uid)) = userSettings_docs fs)
   \<and> (fst (initializeUserSettings clk fs uid) = Inr ()
      \<longrightarrow> userSettings_docs (snd (initializeUserSettings clk' (snd (initializeUserSettings clk fs uid)) uid))
          = userSettings_docs (snd (initializeUserSettings clk fs uid)))
   \<and> (\<forall>u. u \<noteq> uid
      \<longrightarrow> userProgress_docs (snd (initializeUserProgress clk fs uid)) u = userProgress_docs fs u
        \<and> userSettings_docs (snd (initializeUserSettings clk fs uid)) u = userSettings_docs fs u)"
proof (intro conjI impI allI)
  assume a: "failures fs = [] \<and> userProgress_docs fs uid = None"
  then show "fst (initializeUserProgress clk fs uid) = Inr ()"
    by (simp add: initProgress_creates)
  from a show "\<exists>up. userProgress_docs (snd (initializeUserProgress clk fs uid)) uid = Some up
              \<and> UserProgress.subjects up = defaultSubjects
              \<and> map target (UserProgress.subjects up) = [10, 15, 8, 12, 10, 5]
              \<and> UserProgress.totalTarget up = 60"
    by (simp add: initProgress_creates defaultSubjects_targets)
next
  assume "userProgress_docs fs uid \<noteq> None"
  then show "userProgress_docs (snd (initializeUserProgress clk fs uid)) = userProgress_docs fs"
    using initProgress_existing by auto
next
  assume "fst (initializeUserProgress clk fs uid) = Inr ()"
  from initProgress_success[OF this]
  show "userProgress_docs (snd (initializeUserProgress clk' (snd (initializeUserProgress clk fs uid)) uid))
          = userProgress_docs (snd (initializeUserProgress clk fs uid))"
    using initProgress_existing by auto
next
  assume a: "failures fs = [] \<and> userSettings_docs fs uid = None"
  then show "fst (initializeUserSettings clk fs uid) = Inr ()"
    by (simp add: initSettings_creates)
  from a show "\<exists>us. userSettings_docs (snd (initializeUserSettings clk fs uid)) uid = Some us
              \<and> UserSettings.subjects us = defaultSubjects
              \<and> map target (UserSettings.subjects us) = [10, 15, 8, 12, 10, 5]
              \<and> UserSettings.totalTarget us = 60"
    by (simp add: initSettings_creates defaultSubjects_targets)
next
  assume "userSettings_docs fs uid \<noteq> None"
  then show "userSettings_docs (snd (initializeUserSettings clk fs uid)) = userSettings_docs fs"
    using initSettings_existing by auto
next
  assume "fst (initializeUserSettings clk fs uid) = Inr ()"
  from initSettings_success[OF this]
  show "userSettings_docs (snd (initializeUserSettings clk' (snd (initializeUserSettings clk fs uid)) uid))
          = userSettings_docs (snd (initializeUserSettings clk fs uid))"
    using initSettings_existing by auto
next
  fix u
  assume "u \<noteq> uid"
  then show "userProgress_docs (snd (initializeUserProgress clk fs uid)) u = userProgress_docs fs u"
    by (rule initProgress_others)
next
  fix u
  assume "u \<noteq> uid"
  then show "userSettings_docs (snd (initializeUserSettings clk fs uid)) u = userSettings_docs fs u"
    by (rule initSettings_others)
qed

theorem initialize_once_witness:
  "failures emptyStore = [] \<and> userProgress_docs emptyStore ''u1'' = None
   \<and> fst (initializeUserProgress exampleClock emptyStore ''u1'') = Inr ()
   \<and> (\<exists>up. userProgress_docs (snd (initializeUserProgress exampleClock emptyStore ''u1'')) ''u1'' = Some up
         \<and> map target (UserProgress.subjects up) = [10, 15, 8, 12, 10, 5]
         \<and> UserProgress.totalTarget up = 60)
   \<and> userProgress_docs
        (snd (initializeUserProgress laterClock (snd (initializeUserProgress exampleClock emptyStore ''u1'')) ''u1''))
       = userProgress_docs (snd (initializeUserProgress exampleClock emptyStore ''u1''))
   \<and> userProgress_docs exampleStore ''u1'' \<noteq> None
   \<and> userProgress_docs (snd (initializeUserProgress exampleClock exampleStore ''u1''))
       = userProgress_docs exampleStore
   \<and> userSettings_docs emptyStore ''u1'' = None
   \<and> fst (initializeUserSettings exampleClock emptyStore ''u1'') = Inr ()
   \<and> (\<exists>us. userSettings_docs (snd (initializeUserSettings exampleClock emptyStore ''u1'')) ''u1'' = Some us
         \<and> map target (UserSettings.subjects us) = [10, 15, 8, 12, 10, 5]
         \<and> UserSettings.totalTarget us = 60)
   \<and> userSettings_docs
        (snd (initializeUserSettings laterClock (snd (initializeUserSettings exampleClock emptyStore ''u1'')) ''u1''))
       = userSettings_docs (snd (initializeUserSettings exampleClock emptyStore ''u1''))
   \<and> userSettings_docs (snd (initializeUserSettings exampleClock emptyStore ''u1'')) ''u1'' \<noteq> None"
proof -
  have e: "failures emptyStore = []" "userProgress_docs emptyStore ''u1'' = None"
    "userSettings_docs emptyStore ''u1'' = None"
    by (simp_all add: emptyStore_def)
  have x: "userProgress_docs exampleStore ''u1'' \<noteq> None"
    by (simp add: exampleStore_def)
  note a = initialize_once[of emptyStore "''u1''" exampleClock laterClock]
  note b = initialize_once[of exampleStore "''u1''" exampleClock laterClock]
  note A = a[THEN conjunct1, THEN mp, OF conjI[OF e(1) e(2)]]
  note S = a[THEN conjunct2, THEN conjunct2, THEN conjunct2, THEN conjunct1, THEN mp, OF conjI[OF e(1) e(3)]]
  have p1: "fst (initializeUserProgress exampleClock emptyStore ''u1'') = Inr ()"
    by (rule A[THEN conjunct1])
  from A[THEN conjunct2] obtain up where
    "userProgress_docs (snd (initializeUserProgress exampleClock emptyStore ''u1'')) ''u1'' = Some up"
    "map target (UserProgress.subjects up) = [10, 15, 8, 12, 10, 5]"
    "UserProgress.totalTarget up = 60"
    by (elim exE conjE)
  then have p2: "\<exists>up. userProgress_docs (snd (initializeUserProgress exampleClock emptyStore ''u1'')) ''u1'' = Some up
         \<and> map target (UserProgress.subjects up) = [10, 15, 8, 12, 10, 5]
         \<and> UserProgress.totalTarget up = 60"
    by (intro exI conjI)
  have s1: "fst (initializeUserSettings exampleClock emptyStore ''u1'') = Inr ()"
    by (rule S[THEN conjunct1])
  from S[THEN conjunct2] obtain us where
    us: "userSettings_docs (snd (initializeUserSettings exampleClock emptyStore ''u1'')) ''u1'' = Some us"
    "map target (UserSettings.subjects us) = [10, 15, 8, 12, 10, 5]"
    "UserSettings.totalTarget us = 60"
    by (elim exE conjE)
  then have s2: "\<exists>us. userSettings_docs (snd (initializeUserSettings exampleClock emptyStore ''u1'')) ''u1'' = Some us
         \<and> map target (UserSettings.subjects us) = [10, 15, 8, 12, 10, 5]
         \<and> UserSettings.totalTarget us = 60"
    by (intro exI conjI)
  have p3: "userProgress_docs
        (snd (initializeUserProgress laterClock (snd (initializeUserProgress exampleClock emptyStore ''u1'')) ''u1''))
       = userProgress_docs (snd (initializeUserProgress exampleClock emptyStore ''u1''))"
    by (rule a[THEN conjunct2, THEN conjunct2, THEN conjunct1, THEN mp, OF p1])
  have s3: "userSettings_docs
        (snd (initializeUserSettings laterClock (snd (initializeUserSettings exampleClock emptyStore ''u1'')) ''u1''))
       = userSettings_docs (snd (initializeUserSettings exampleClock emptyStore ''u1''))"
    by (rule a[THEN conjunct2, THEN conjunct2, THEN conjunct2, THEN conjunct2, THEN conjunct2,
          THEN conjunct1, THEN mp, OF s1])
  have p4: "userProgress_docs (snd (initializeUserProgress exampleClock exampleStore ''u1''))
       = userProgress_docs exampleStore"
    by (rule b[THEN conjunct2, THEN conjunct1, THEN mp, OF x])
  from us(1) have s4: "userSettings_docs (snd (initializeUserSettings exampleClock emptyStore ''u1'')) ''u1'' \<noteq> None"
    by simp
  from e p1 p2 p3 x p4 s1 s2 s3 s4 show ?thesis
    by (intro conjI)
qed

section \<open>Failures of the store\<close>

text \<open>
  C9, as amended. When the request fails, \<open>saveDailyProgressForDate\<close> hands the error to its
  caller and stores nothing, \<open>getDailyProgressForDate\<close> returns \<open>null\<close> and
  \<open>getUserDailyHistory\<close> returns the empty list. Failing or not, each of the three issues
  exactly one request: there is no retry.
\<close>

theorem adapter_failures:
  "(failures fs = True # rest
      \<longrightarrow> fst (saveDailyProgressForDate clk fs uid dp) = Inl FirestoreError
        \<and> dailyHistory_docs (snd (saveDailyProgressForDate clk fs uid dp)) = dailyHistory_docs fs
        \<and> fst (getDailyProgressForDate fs uid d) = Inr None
        \<and> fst (getUserDailyHistory fs uid n) = Inr [])
   \<and> requests (snd (saveDailyProgressForDate clk fs uid dp))
       = requests fs @ [SetDocMerge ''dailyHistory'' (uid @ ''_'' @ date dp)]
   \<and> requests (snd (getDailyProgressForDate fs uid d))
       = requests fs @ [GetDoc ''dailyHistory'' (uid @ ''_'' @ d)]
   \<and> requests (snd (getUserDailyHistory fs uid n)) = requests fs @ [GetDocs ''dailyHistory'']"
  by (auto simp: saveDailyProgressForDate_def getDailyProgressForDate_def getUserDailyHistory_def
        issue_def Let_def dailyDocId_def split: list.splits bool.splits)

theorem adapter_failures_witness:
  "failures failingStore = True # []
   \<and> fst (saveDailyProgressForDate exampleClock failingStore ''u1'' fenPayload) = Inl FirestoreError
   \<and> dailyHistory_docs (snd (saveDailyProgressForDate exampleClock failingStore ''u1'' fenPayload))
       = [(''u1_2024-01-15'', mathRecord)]
   \<and> requests (snd (saveDailyProgressForDate exampleClock failingStore ''u1'' fenPayload))
       = [SetDocMerge ''dailyHistory'' ''u1_2024-01-15'']"
proof -
  have f: "failures failingStore = True # []"
    by (simp add: failingStore_def)
  from adapter_failures[of failingStore "[]" exampleClock "''u1''" fenPayload] f
  show ?thesis
    by (simp add: failingStore_def exampleStore_def fenPayload_def)
qed

text \<open>
  C9 as stated fails for the two reads: with the record for the date in the store and the
  request failing, \<open>getDailyProgressForDate\<close> returns \<open>null\<close>, as it does for a record that
  does not exist, and \<open>getUserDailyHistory\<close> returns \<open>[]\<close>; neither result is an error.
\<close>

theorem swallowed_failure_counterexample:
  "failures failingStore = [True]
   \<and> map_of (dailyHistory_docs failingStore) ''u1_2024-01-15'' = Some mathRecord
   \<and> \<not> isl (fst (getDailyProgressForDate failingStore ''u1'' ''2024-01-15''))
   \<and> fst (getDailyProgressForDate failingStore ''u1'' ''2024-01-15'') = Inr None
   \<and> \<not> isl (fst (getUserDailyHistory failingStore ''u1'' 7))
   \<and> fst (getUserDailyHistory failingStore ''u1'' 7) = Inr []"
  by (simp add: failingStore_def exampleStore_def getDailyProgressForDate_def
        getUserDailyHistory_def issue_def Let_def)

section \<open>Persisting a mutation\<close>

lemma progress_subjects_map:
  "map_of (foldl (\<lambda>obj subject. AList.update (name subject) (ownCounts subject) obj) [] subjs)
     = seedStats subjs"
proof (induction subjs rule: rev_induct)
  case Nil
  show ?case by (simp add: seedStats_Nil)
next
  case (snoc x xs)
  then show ?case by (simp add: update_conv' seedStats_snoc)
qed

lemma progress_subjects_distinct:
  "distinct (map fst (foldl (\<lambda>obj subject. AList.update (name subject) (ownCounts subject) obj) [] subjs))"
  by (induction subjs rule: rev_induct) (simp_all add: distinct_update)

lemma progressForDate_subjects:
  "DailyProgressData.subjects (progressForDate d subjs t)
     = foldl (\<lambda>obj subject. AList.update (name subject) (ownCounts subject) obj) [] subjs"
  by (simp add: progressForDate_def ownCounts_def)

lemma updateQuestions_names:
  "updateQuestions clk fs st i ty d = Inr (st', fs')
     \<Longrightarrow> map name (subjectProgress st') = map name (subjectProgress st)"
  by (cases ty) (auto simp: updateQuestions_def Let_def map_update list_update_same_conv
        split: if_splits option.splits prod.splits)

lemma updateQuestions_effect:
  assumes "currentUser st = Some uid" and "i < length (subjectProgress st)"
  shows "\<exists>st' fs'. updateQuestions clk fs st i ty d = Inr (st', fs')
           \<and> currentUser st' = Some uid \<and> selectedDate st' = selectedDate st
           \<and> length (subjectProgress st') = length (subjectProgress st)
           \<and> fs' = snd (saveDailyProgressForDate clk fs uid
                     (progressForDate (selectedDate st) (subjectProgress st') (totalQuestions st')))"
  using assms by (auto simp: updateQuestions_def Let_def split: prod.splits)

lemma updateQuestionsSeq_requests:
  assumes "currentUser st = Some uid" and "i < length (subjectProgress st)"
  shows "\<exists>st' fs'. updateQuestionsSeq clk fs st i ty ds = Inr (st', fs')
           \<and> requests fs' = requests fs
                @ replicate (length ds) (SetDocMerge ''dailyHistory'' (uid @ ''_'' @ selectedDate st))"
  using assms
proof (induction ds arbitrary: st fs)
  case Nil
  then show ?case by simp
next
  case (Cons d ds)
  from updateQuestions_effect[OF Cons.prems, of clk fs ty d]
  obtain st1 fs1 where run: "updateQuestions clk fs st i ty d = Inr (st1, fs1)"
    and u: "currentUser st1 = Some uid" and sd: "selectedDate st1 = selectedDate st"
    and len: "length (subjectProgress st1) = length (subjectProgress st)"
    and fs1: "fs1 = snd (saveDailyProgressForDate clk fs uid
                     (progressForDate (selectedDate st) (subjectProgress st1) (totalQuestions st1)))"
    by blast
  have r1: "requests fs1 = requests fs @ [SetDocMerge ''dailyHistory'' (uid @ ''_'' @ selectedDate st)]"
    unfolding fs1 by (simp add: save_requests progressForDate_def)
  from Cons.prems len have "i < length (subjectProgress st1)"
    by simp
  from Cons.IH[OF u this, of fs1] obtain st' fs' where
    rest: "updateQuestionsSeq clk fs1 st1 i ty ds = Inr (st', fs')"
    and r2: "requests fs' = requests fs1
                @ replicate (length ds) (SetDocMerge ''dailyHistory'' (uid @ ''_'' @ selectedDate st1))"
    by blast
  from run rest r1 r2 sd show ?case
    by (simp add: replicate_app_Cons_same)
qed

lemma updateQuestions_stored:
  assumes user: "currentUser st = Some uid"
    and index: "i < length (subjectProgress st)"
    and ok: "failures fs = []"
    and names: "distinct (map name (subjectProgress st))"
  shows "\<exists>st' fs' doc. updateQuestions clk fs st i ty d = Inr (st', fs')
           \<and> currentUser st' = Some uid \<and> selectedDate st' = selectedDate st
           \<and> length (subjectProgress st') = length (subjectProgress st)
           \<and> distinct (map name (subjectProgress st'))
           \<and> failures fs' = []
           \<and> map_of (dailyHistory_docs fs') (uid @ ''_'' @ selectedDate st) = Some doc
           \<and> date doc = selectedDate st
           \<and> total doc = totalQuestions st'
           \<and> (\<forall>s\<in>set (subjectProgress st').
                 map_of (DailyProgressData.subjects doc) (name s) = Some (ownCounts s))"
proof -
  from updateQuestions_effect[OF user index, of clk fs ty d]
  obtain st' fs' where run: "updateQuestions clk fs st i ty d = Inr (st', fs')"
    and u: "currentUser st' = Some uid" and sd: "selectedDate st' = selectedDate st"
    and len: "length (subjectProgress st') = length (subjectProgress st)"
    and fs': "fs' = snd (saveDailyProgressForDate clk fs uid
                     (progressForDate (selectedDate st) (subjectProgress st') (totalQuestions st')))"
    by blast
  let ?dp = "progressForDate (selectedDate st) (subjectProgress st') (totalQuestions st')"
  let ?key = "uid @ ''_'' @ selectedDate st"
  let ?doc = "mergeDaily (map_of (dailyHistory_docs fs) ?key) (dailyData clk uid ?dp)"
  from names updateQuestions_names[OF run] have names': "distinct (map name (subjectProgress st'))"
    by simp
  have dd: "date ?dp = selectedDate st" and td: "total ?dp = totalQuestions st'"
    by (simp_all add: progressForDate_def)
  have ok': "failures fs' = []"
    unfolding fs' by (simp add: save_ok[OF ok] ok)
  have found: "map_of (dailyHistory_docs fs') ?key = Some ?doc"
    unfolding fs' by (simp add: save_ok[OF ok] dd dailyDocId_def update_conv')
  have f1: "date ?doc = selectedDate st" and f2: "total ?doc = totalQuestions st'"
    by (simp_all add: mergeDaily_fields dailyData_def dd td)
  have sub: "DailyProgressData.subjects (dailyData clk uid ?dp)
      = foldl (\<lambda>obj subject. AList.update (name subject) (ownCounts subject) obj) [] (subjectProgress st')"
    by (simp add: dailyData_def progressForDate_subjects)
  have entries: "\<forall>s\<in>set (subjectProgress st').
      map_of (DailyProgressData.subjects ?doc) (name s) = Some (ownCounts s)"
  proof
    fix s
    assume s: "s \<in> set (subjectProgress st')"
    have "map_of (DailyProgressData.subjects (dailyData clk uid ?dp)) (name s) = Some (ownCounts s)"
      unfolding sub progress_subjects_map by (rule seedStats_member[OF names' s])
    then have mem: "(name s, ownCounts s) \<in> set (DailyProgressData.subjects (dailyData clk uid ?dp))"
      by (rule map_of_SomeD)
    have dist: "distinct (map fst (DailyProgressData.subjects (dailyData clk uid ?dp)))"
      unfolding sub by (rule progress_subjects_distinct)
    show "map_of (DailyProgressData.subjects ?doc) (name s) = Some (ownCounts s)"
      by (rule mergeDaily_member[OF dist mem])
  qed
  from run u sd len names' ok' found f1 f2 entries show ?thesis
    by blast
qed

lemma updateQuestionsSeq_stored:
  assumes "currentUser st = Some uid"
    and "i < length (subjectProgress st)"
    and "failures fs = []"
    and "distinct (map name (subjectProgress st))"
    and "ds \<noteq> []"
  shows "\<exists>st' fs' doc. updateQuestionsSeq clk fs st i ty ds = Inr (st', fs')
           \<and> map_of (dailyHistory_docs fs') (uid @ ''_'' @ selectedDate st) = Some doc
           \<and> date doc = selectedDate st
           \<and> total doc = totalQuestions st'
           \<and> (\<forall>s\<in>set (subjectProgress st').
                 map_of (DailyProgressData.subjects doc) (name s) = Some (ownCounts s))"
  using assms
proof (induction ds arbitrary: st fs)
  case Nil
  then show ?case by simp
next
  case (Cons d ds)
  from updateQuestions_stored[OF Cons.prems(1-4), of clk ty d]
  obtain st1 fs1 doc1 where run: "updateQuestions clk fs st i ty d = Inr (st1, fs1)"
    and u: "currentUser st1 = Some uid" and sd: "selectedDate st1 = selectedDate st"
    and len: "length (subjectProgress st1) = length (subjectProgress st)"
    and names: "distinct (map name (subjectProgress st1))"
    and ok: "failures fs1 = []"
    and doc: "map_of (dailyHistory_docs fs1) (uid @ ''_'' @ selectedDate st) = Some doc1"
      "date doc1 = selectedDate st" "total doc1 = totalQuestions st1"
      "\<forall>s\<in>set (subjectProgress st1).
          map_of (DailyProgressData.subjects doc1) (name s) = Some (ownCounts s)"
    by blast
  show ?case
  proof (cases "ds = []")
    case True
    with run doc show ?thesis
      by simp
  next
    case False
    from Cons.prems(2) len have i: "i < length (subjectProgress st1)"
      by simp
    from Cons.IH[OF u i ok names False] run sd show ?thesis
      by simp
  qed
qed

lemma example_mutations:
  "fst (projr (updateQuestionsSeq exampleClock emptyStore mathOnly 0 Correct [1, 1, -1]))
     = mathOnly\<lparr>subjectProgress :=
         [\<lparr> name = ''Matematik'', icon = [], correct = 6, wrong = 0, empty = 0, target = 15,
            color = ''bg-blue-500'' \<rparr>],
        totalQuestions := 6\<rparr>"
  by (simp add: updateQuestions_def mathOnly_def Let_def sumQuestions_def split: prod.splits)

text \<open>
  C2, as amended. For a signed-in user every \<open>updateQuestions\<close> call issues its own merge
  write of the daily record, at once: a sequence of \<open>n\<close> calls issues \<open>n\<close> writes to the
  document \<open>userId_selectedDate\<close>, one per call. When the store accepts the writes and the
  subject names are distinct, the document stored after the last call of a sequence (so also
  after a single call) carries the state after that call: the selected date, the new total
  and each subject's counters.
\<close>

theorem mutation_upserts_immediately:
  assumes user: "currentUser st = Some uid"
    and index: "i < length (subjectProgress st)"
  shows "(\<exists>st' fs'. updateQuestionsSeq clk fs st i ty ds = Inr (st', fs')
           \<and> requests fs' = requests fs
                @ replicate (length ds) (SetDocMerge ''dailyHistory'' (uid @ ''_'' @ selectedDate st)))
       \<and> (failures fs = [] \<and> distinct (map name (subjectProgress st)) \<and> ds \<noteq> []
            \<longrightarrow> (\<exists>st' fs' doc. updateQuestionsSeq clk fs st i ty ds = Inr (st', fs')
                   \<and> map_of (dailyHistory_docs fs') (uid @ ''_'' @ selectedDate st) = Some doc
                   \<and> date doc = selectedDate st
                   \<and> total doc = totalQuestions st'
                   \<and> (\<forall>s\<in>set (subjectProgress st').
                         map_of (DailyProgressData.subjects doc) (name s) = Some (ownCounts s))))"
proof (intro conjI impI)
  show "\<exists>st' fs'. updateQuestionsSeq clk fs st i ty ds = Inr (st', fs')
           \<and> requests fs' = requests fs
                @ replicate (length ds) (SetDocMerge ''dailyHistory'' (uid @ ''_'' @ selectedDate st))"
    by (rule updateQuestionsSeq_requests[OF user index])
next
  assume a: "failures fs = [] \<and> distinct (map name (subjectProgress st)) \<and> ds \<noteq> []"
  then have ok: "failures fs = []" and names: "distinct (map name (subjectProgress st))"
    and ds: "ds \<noteq> []"
    by simp_all
  show "\<exists>st' fs' doc. updateQuestionsSeq clk fs st i ty ds = Inr (st', fs')
          \<and> map_of (dailyHistory_docs fs') (uid @ ''_'' @ selectedDate st) = Some doc
          \<and> date doc = selectedDate st
          \<and> total doc = totalQuestions st'
          \<and> (\<forall>s\<in>set (subjectProgress st').
                map_of (DailyProgressData.subjects doc) (name s) = Some (ownCounts s))"
    by (rule updateQuestionsSeq_stored[OF user index ok names ds])
qed

theorem mutation_upserts_immediately_witness:
  "currentUser mathOnly = Some ''u1''
   \<and> 0 < length (subjectProgress mathOnly)
   \<and> failures emptyStore = []
   \<and> distinct (map name (subjectProgress mathOnly))
   \<and> [1, 1, -1] \<noteq> ([] :: int list)
   \<and> (\<exists>st' fs'. updateQuestionsSeq exampleClock emptyStore mathOnly 0 Correct [1, 1, -1] = Inr (st', fs')
         \<and> requests fs' = [SetDocMerge ''dailyHistory'' ''u1_2024-01-15'',
                            SetDocMerge ''dailyHistory'' ''u1_2024-01-15'',
                            SetDocMerge ''dailyHistory'' ''u1_2024-01-15''])
   \<and> (\<exists>st' fs' doc. updateQuestionsSeq exampleClock emptyStore mathOnly 0 Correct [1, 1, -1] = Inr (st', fs')
         \<and> map_of (dailyHistory_docs fs') ''u1_2024-01-15'' = Some doc
         \<and> date doc = ''2024-01-15''
         \<and> total doc = 6
         \<and> map_of (DailyProgressData.subjects doc) ''Matematik''
             = Some \<lparr> SubjectCounts.correct = 6, SubjectCounts.wrong = 0, SubjectCounts.empty = 0,
                      SubjectCounts.total = 6 \<rparr>)"
proof -
  have u: "currentUser mathOnly = Some ''u1''"
    and i: "0 < length (subjectProgress mathOnly)"
    and n: "distinct (map name (subjectProgress mathOnly))"
    and sd: "selectedDate mathOnly = ''2024-01-15''"
    by (simp_all add: mathOnly_def)
  have ok: "failures emptyStore = []" and rq: "requests emptyStore = []"
    by (simp_all add: emptyStore_def)
  have ne: "[1, 1, -1] \<noteq> ([] :: int list)"
    by simp
  note main = mutation_upserts_immediately[OF u i, of exampleClock emptyStore Correct "[1, 1, -1]"]
  from main[THEN conjunct1]
  have 1: "\<exists>st' fs'. updateQuestionsSeq exampleClock emptyStore mathOnly 0 Correct [1, 1, -1] = Inr (st', fs')
         \<and> requests fs' = [SetDocMerge ''dailyHistory'' ''u1_2024-01-15'',
                            SetDocMerge ''dailyHistory'' ''u1_2024-01-15'',
                            SetDocMerge ''dailyHistory'' ''u1_2024-01-15'']"
    unfolding sd rq by (simp add: numeral_3_eq_3)
  from main[THEN conjunct2, rule_format, OF conjI[OF ok conjI[OF n ne]]]
  obtain st' fs' doc where
    run: "updateQuestionsSeq exampleClock emptyStore mathOnly 0 Correct [1, 1, -1] = Inr (st', fs')"
    and found: "map_of (dailyHistory_docs fs') (''u1'' @ ''_'' @ selectedDate mathOnly) = Some doc"
    and d: "date doc = selectedDate mathOnly"
    and t: "total doc = totalQuestions st'"
    and e: "\<forall>s\<in>set (subjectProgress st').
               map_of (DailyProgressData.subjects doc) (name s) = Some (ownCounts s)"
    by blast
  from run example_mutations have st': "st' = mathOnly\<lparr>subjectProgress :=
         [\<lparr> name = ''Matematik'', icon = [], correct = 6, wrong = 0, empty = 0, target = 15,
            color = ''bg-blue-500'' \<rparr>],
        totalQuestions := 6\<rparr>"
    by simp
  have t6: "total doc = 6"
    using t by (simp add: st')
  have e6: "map_of (DailyProgressData.subjects doc) ''Matematik''
             = Some \<lparr> SubjectCounts.correct = 6, SubjectCounts.wrong = 0, SubjectCounts.empty = 0,
                      SubjectCounts.total = 6 \<rparr>"
    using e by (simp add: st' ownCounts_def)
  from run found d t6 e6 sd
  have 2: "\<exists>st' fs' doc. updateQuestionsSeq exampleClock emptyStore mathOnly 0 Correct [1, 1, -1] = Inr (st', fs')
         \<and> map_of (dailyHistory_docs fs') ''u1_2024-01-15'' = Some doc
         \<and> date doc = ''2024-01-15''
         \<and> total doc = 6
         \<and> map_of (DailyProgressData.subjects doc) ''Matematik''
             = Some \<lparr> SubjectCounts.correct = 6, SubjectCounts.wrong = 0, SubjectCounts.empty = 0,
                      SubjectCounts.total = 6 \<rparr>"
    by simp
  from u i ok n ne 1 2 show ?thesis
    by (intro conjI)
qed

text \<open>
  C2 as stated fails: two \<open>updateQuestions\<close> calls in a row issue two upserts of the daily
  record, whatever the time between them.
\<close>

theorem two_mutations_two_upserts_counterexample:
  "\<not> isl (updateQuestionsSeq exampleClock emptyStore mathOnly 0 Correct [1, 1])
   \<and> requests (snd (projr (updateQuestionsSeq exampleClock emptyStore mathOnly 0 Correct [1, 1])))
       = [SetDocMerge ''dailyHistory'' ''u1_2024-01-15'', SetDocMerge ''dailyHistory'' ''u1_2024-01-15'']"
  by (simp add: updateQuestions_def mathOnly_def Let_def saveDailyProgressForDate_def issue_def
        emptyStore_def dailyDocId_def progressForDate_def split: prod.splits)

end
